theory Spec2Isabelle
  imports Complex_Main "HOL-Library.Word"
begin

section \<open>Instance-mask post-processing of mmdeploy (ResizeInstanceMask)\<close>

text \<open>
  The development embeds \<^verbatim>\<open>csrc/mmdeploy/codebase/mmdet/instance_segmentation.cpp\<close>:
  the constructor of \<^verbatim>\<open>ResizeInstanceMask\<close>, its call operator and \<^verbatim>\<open>ProcessMasks\<close>.

  Numbers. A C++ \<^verbatim>\<open>float\<close> is modelled by a \<^typ>\<open>real\<close>: the finite values, with exact
  arithmetic. Rounding of binary32 results is not modelled. A division is the one
  operation of the file that leaves the finite values on finite arguments (the divisor
  can be zero), so its result is a \<^typ>\<open>real option\<close>, \<open>None\<close> standing for the
  non-finite results (infinities and NaN), which every later operation on it keeps.
  A C++ \<^verbatim>\<open>int\<close> is an \<^typ>\<open>int\<close>; the file does no arithmetic on them.

  Collaborators. Tensors, dynamic values, the bounding-box decoder, the warp operator
  and the OpenCV conversion are declared outside the translated file. Their operations
  are parameters of the model, collected in the record \<open>ops\<close>; theorems hold for every
  choice of them.
\<close>

subsection \<open>Types declared by the framework\<close>

text \<open>
  The enumerations are declared in headers outside the translated file. Only the members
  the file names are told apart; every other member is \<open>kOther...\<close>/\<open>eOther...\<close> with
  its number.
\<close>

datatype DataType = kFLOAT | kINT8 | kOtherDataType nat

datatype PixelFormat = kGRAYSCALE | kOtherPixelFormat nat

datatype ErrorCode = eNotSupported | eFail | eOtherError nat

text \<open>
  A call ends with a value, with an error status (\<^verbatim>\<open>Result<T>\<close> holding an error, which
  \<^verbatim>\<open>OUTCOME_TRY\<close> returns at once), with a C++ exception, or in a way the language
  leaves undefined (\<open>Undefined\<close>): nothing is known of the program from there on, and no
  handler catches it.
\<close>

datatype failure = Status ErrorCode | Exception | Undefined

type_synonym 'a outcome = "failure + 'a"

definition bind :: "'a outcome \<Rightarrow> ('a \<Rightarrow> 'b outcome) \<Rightarrow> 'b outcome" where
  "bind r f = (case r of Inl e \<Rightarrow> Inl e | Inr v \<Rightarrow> f v)"

text \<open>A tensor: its descriptor (shape and element type) and its buffer, left abstract.\<close>

record 'd Tensor =
  shape :: "int list"
  data_type :: DataType
  buffer :: 'd

text \<open>\<^verbatim>\<open>mmdeploy::Mat\<close>, as built by \<^verbatim>\<open>Mat(h, w, format, type, data)\<close>.\<close>

record Mat =
  mat_height :: int
  mat_width :: int
  mat_format :: PixelFormat
  mat_type :: DataType
  mat_data :: "8 word list"

text \<open>\<^verbatim>\<open>cv::Mat\<close> with one channel: rows, columns and the elements in row-major order.\<close>

record 'a cvMat =
  rows :: int
  cols :: int
  elems :: "'a list"

text \<open>A detection; \<open>mask\<close> is empty (\<open>None\<close>) until \<^verbatim>\<open>ProcessMasks\<close> fills it.\<close>

record Detection =
  index :: int
  label_id :: int
  score :: real
  bbox :: "real \<times> real \<times> real \<times> real"
  mask :: "Mat option"

text \<open>The members of \<^verbatim>\<open>ResizeInstanceMask\<close> that the constructor sets.\<close>

record ResizeInstanceMask_state =
  mask_thr_binary :: real
  is_rcnn :: bool

text \<open>
  The operations of the collaborators. \<open>'v\<close> is the dynamic \<^verbatim>\<open>Value\<close>, \<open>'d\<close> a tensor
  buffer. Operations that return \<^verbatim>\<open>Result\<close> or may throw have an \<open>outcome\<close>.
\<close>

record ('v, 'd) ops =
  contains :: "'v \<Rightarrow> string \<Rightarrow> bool"
  at_key :: "'v \<Rightarrow> string \<Rightarrow> 'v outcome"
  at_idx :: "'v \<Rightarrow> nat \<Rightarrow> 'v outcome"
  value_float :: "'v \<Rightarrow> string \<Rightarrow> real \<Rightarrow> real outcome"
  get_int :: "'v \<Rightarrow> int outcome"
  get_Tensor :: "'v \<Rightarrow> 'd Tensor outcome"
  Squeeze :: "'d Tensor \<Rightarrow> nat \<Rightarrow> 'd Tensor"
  Slice :: "'d Tensor \<Rightarrow> int \<Rightarrow> 'd Tensor"
  Reshape :: "'d Tensor \<Rightarrow> int list \<Rightarrow> 'd Tensor"
  data_float :: "'d Tensor \<Rightarrow> nat \<Rightarrow> real"
  MakeAvailableOnDevice :: "'d Tensor \<Rightarrow> 'd Tensor outcome"
  DispatchGetBBoxes :: "'v \<Rightarrow> 'd Tensor \<Rightarrow> 'd Tensor \<Rightarrow> Detection list outcome"
  warp_affine_Apply ::
    "'d Tensor \<Rightarrow> real option list \<Rightarrow> int \<Rightarrow> int \<Rightarrow> 'd Tensor outcome"
  Tensor2CVMat :: "'d Tensor \<Rightarrow> real cvMat outcome"

subsection \<open>The constructor\<close>

text \<open>
  \<^verbatim>\<open>mask_thr_binary_{.5f}\<close> and \<^verbatim>\<open>is_rcnn_{true}\<close> are the member initialisers; the body
  overwrites both when the configuration has a \<^verbatim>\<open>params\<close> entry. The base-class
  constructor and the creation of the warp operator are outside the model.
\<close>

definition ResizeInstanceMask ::
  "('v, 'd) ops \<Rightarrow> 'v \<Rightarrow> ResizeInstanceMask_state outcome" where
  "ResizeInstanceMask E cfg =
     (if contains E cfg ''params'' then
        bind (at_key E cfg ''params'') (\<lambda>p.
        bind (value_float E p ''mask_thr_binary'' (1 / 2)) (\<lambda>thr.
        bind (at_key E cfg ''params'') (\<lambda>p'.
          Inr \<lparr>mask_thr_binary = thr, is_rcnn = contains E p' ''rcnn''\<rparr>)))
      else Inr \<lparr>mask_thr_binary = 1 / 2, is_rcnn = True\<rparr>)"

subsection \<open>Geometry of one detection\<close>

text \<open>
  \<^verbatim>\<open>static_cast<int>\<close> of a float truncates toward zero (the source's behaviour is
  undefined when the value does not fit an \<^verbatim>\<open>int\<close>).
\<close>

definition static_cast_int :: "real \<Rightarrow> int" where
  "static_cast_int r = (if 0 \<le> r then \<lfloor>r\<rfloor> else \<lceil>r\<rceil>)"

text \<open>Lines 104 to 107: the corners \<open>(x0, y0, x1, y1)\<close> of the target rectangle.\<close>

definition target_rect ::
  "real \<times> real \<times> real \<times> real \<Rightarrow> int \<Rightarrow> int \<Rightarrow> real \<times> real \<times> real \<times> real" where
  "target_rect b img_w img_h =
     (case b of (b0, b1, b2, b3) \<Rightarrow>
        (max (real_of_int \<lfloor>b0\<rfloor> - 1) 0,
         max (real_of_int \<lfloor>b1\<rfloor> - 1) 0,
         min (real_of_int \<lceil>b2\<rceil> + 1) (real_of_int img_w),
         min (real_of_int \<lceil>b3\<rceil> + 1) (real_of_int img_h)))"

text \<open>Lines 108 and 109.\<close>

definition rect_width :: "real \<times> real \<times> real \<times> real \<Rightarrow> int" where
  "rect_width r = (case r of (x0, y0, x1, y1) \<Rightarrow> static_cast_int (x1 - x0))"

definition rect_height :: "real \<times> real \<times> real \<times> real \<Rightarrow> int" where
  "rect_height r = (case r of (x0, y0, x1, y1) \<Rightarrow> static_cast_int (y1 - y0))"

text \<open>Float division: a zero divisor gives an infinity or NaN.\<close>

definition fdiv :: "real \<Rightarrow> real \<Rightarrow> real option" where
  "fdiv a b = (if b = 0 then None else Some (a / b))"

text \<open>
  Lines 115 to 131: the coefficients \<open>(fx, fy, tx, ty)\<close>. \<open>raw\<close> holds
  \<^verbatim>\<open>raw_bbox_data[0..3]\<close>, read only in the second branch.
\<close>

definition affine_coeffs ::
  "bool \<Rightarrow> int \<Rightarrow> int \<Rightarrow> real \<times> real \<times> real \<times> real \<Rightarrow> real \<Rightarrow> real \<Rightarrow>
   real \<times> real \<times> real \<times> real \<Rightarrow> real option \<times> real option \<times> real option \<times> real option" where
  "affine_coeffs rcnn mask_height mask_width b x0 y0 raw =
     (case b of (b0, b1, b2, b3) \<Rightarrow>
      case raw of (r0, r1, r2, r3) \<Rightarrow>
        if rcnn then
          (let fx = fdiv (real_of_int mask_height) (b2 - b0);
               fy = fdiv (real_of_int mask_width) (b3 - b1);
               tx = map_option (\<lambda>f. (x0 + 1 / 2 - b0) * f - 1 / 2) fx;
               ty = map_option (\<lambda>f. (y0 + 1 / 2 - b1) * f - 1 / 2) fy
           in (fx, fy, tx, ty))
        else
          (let fx = fdiv (r2 - r0) (b2 - b0);
               fy = fdiv (r3 - r1) (b3 - b1);
               tx = map_option (\<lambda>f. (x0 + 1 / 2 - b0) * f - 1 / 2 + r0) fx;
               ty = map_option (\<lambda>f. (y0 + 1 / 2 - b1) * f - 1 / 2 + r1) fy
           in (fx, fy, tx, ty)))"

text \<open>Line 132: \<^verbatim>\<open>float affine_matrix[] = {fx, 0, tx, 0, fy, ty}\<close>.\<close>

definition affine_matrix ::
  "real option \<times> real option \<times> real option \<times> real option \<Rightarrow> real option list" where
  "affine_matrix c = (case c of (fx, fy, tx, ty) \<Rightarrow> [fx, Some 0, tx, Some 0, fy, ty])"

subsection \<open>Thresholding\<close>

text \<open>
  Line 140, \<^verbatim>\<open>warped_mat = warped_mat > mask_thr_binary_\<close>: OpenCV's element-wise
  comparison of a matrix with a scalar gives an 8-bit matrix of the same size holding
  255 where the comparison holds and 0 elsewhere.
\<close>

definition cv_gt :: "real cvMat \<Rightarrow> real \<Rightarrow> 8 word cvMat" where
  "cv_gt m thr =
     \<lparr>rows = rows m, cols = cols m,
      elems = map (\<lambda>v. if v > thr then 255 else 0) (elems m)\<rparr>"

subsection \<open>ProcessMasks\<close>

text \<open>
  \<^verbatim>\<open>shape(k)\<close> of a tensor. An index beyond the rank is undefined behaviour in the
  source.
\<close>

definition shape_at :: "'d Tensor \<Rightarrow> nat \<Rightarrow> int outcome" where
  "shape_at t k = (if k < length (shape t) then Inr (shape t ! k) else Inl Undefined)"

text \<open>
  Lines 125 and 126: the row of \<^verbatim>\<open>cpu_dets\<close> at the detection's index, of which the
  source reads the first four floats.
\<close>

definition raw_bbox_data ::
  "('v, 'd) ops \<Rightarrow> 'd Tensor \<Rightarrow> Detection \<Rightarrow> real \<times> real \<times> real \<times> real" where
  "raw_bbox_data E cpu_dets det =
     (let raw_bbox = Slice E cpu_dets (index det)
      in (data_float E raw_bbox 0, data_float E raw_bbox 1,
          data_float E raw_bbox 2, data_float E raw_bbox 3))"

text \<open>
  The body of the loop (lines 97 to 142) for one detection: the detection with its mask
  set, or the failure that leaves the loop. The logging of lines 110 to 113 has no
  effect on the result.
\<close>

definition process_det ::
  "('v, 'd) ops \<Rightarrow> ResizeInstanceMask_state \<Rightarrow> 'd Tensor \<Rightarrow> 'd Tensor \<Rightarrow> int \<Rightarrow> int \<Rightarrow>
   Detection \<Rightarrow> Detection outcome" where
  "process_det E self masks cpu_dets img_w img_h det =
     (let mask_slice = Slice E masks (index det) in
      bind (shape_at mask_slice 1) (\<lambda>mask_height.
      bind (shape_at mask_slice 2) (\<lambda>mask_width.
        let r = target_rect (bbox det) img_w img_h;
            w = rect_width r;
            h = rect_height r;
            m = affine_matrix
                  (affine_coeffs (is_rcnn self) mask_height mask_width (bbox det)
                     (fst r) (fst (snd r)) (raw_bbox_data E cpu_dets det));
            reshaped = Reshape E mask_slice [1, mask_height, mask_width, 1]
        in
        bind (warp_affine_Apply E reshaped m h w) (\<lambda>warped_mask.
        bind (MakeAvailableOnDevice E warped_mask) (\<lambda>host_mask.
        bind (Tensor2CVMat E host_mask) (\<lambda>warped_mat.
          Inr (det\<lparr>mask := Some \<lparr>mat_height = h, mat_width = w,
                                   mat_format = kGRAYSCALE, mat_type = kINT8,
                                   mat_data = elems (cv_gt warped_mat (mask_thr_binary self))\<rparr>\<rparr>)))))))"

text \<open>
  The loop over \<^verbatim>\<open>result\<close>, which is updated in place: the function returns the list as
  the caller sees it afterwards, together with how the function ended. A failure leaves
  the loop, and the function, at once; the detections before it keep their new masks, the
  others are untouched. When the loop completes, control reaches the closing brace of
  \<^verbatim>\<open>ProcessMasks\<close> (lines 143 and 144): the function is declared to return
  \<^verbatim>\<open>Result<void>\<close> and has no \<^verbatim>\<open>return\<close> statement there, which is undefined
  behaviour. So the function never ends with a value.
\<close>

fun ProcessMasks_loop ::
  "('v, 'd) ops \<Rightarrow> ResizeInstanceMask_state \<Rightarrow> 'd Tensor \<Rightarrow> 'd Tensor \<Rightarrow> int \<Rightarrow> int \<Rightarrow>
   Detection list \<Rightarrow> unit outcome \<times> Detection list" where
  "ProcessMasks_loop E self masks cpu_dets img_w img_h [] = (Inl Undefined, [])"
| "ProcessMasks_loop E self masks cpu_dets img_w img_h (det # rest) =
     (case process_det E self masks cpu_dets img_w img_h det of
        Inl e \<Rightarrow> (Inl e, det # rest)
      | Inr det' \<Rightarrow>
          (case ProcessMasks_loop E self masks cpu_dets img_w img_h rest of
             (st, rest') \<Rightarrow> (st, det' # rest')))"

text \<open>Lines 92 to 144: the two tensors are squeezed, then the loop runs.\<close>

definition ProcessMasks ::
  "('v, 'd) ops \<Rightarrow> ResizeInstanceMask_state \<Rightarrow> Detection list \<Rightarrow> 'd Tensor \<Rightarrow> 'd Tensor \<Rightarrow>
   int \<Rightarrow> int \<Rightarrow> unit outcome \<times> Detection list" where
  "ProcessMasks E self result masks cpu_dets img_w img_h =
     ProcessMasks_loop E self (Squeeze E masks 0) (Squeeze E cpu_dets 0) img_w img_h result"

subsection \<open>The call operator\<close>

text \<open>Lines 44 to 62, the three checks in the order of the source.\<close>

definition validate :: "'d Tensor \<Rightarrow> 'd Tensor \<Rightarrow> 'd Tensor \<Rightarrow> ErrorCode option" where
  "validate dets labels masks =
     (if \<not> (length (shape dets) = 3 \<and> data_type dets = kFLOAT) then Some eNotSupported
      else if length (shape labels) \<noteq> 2 then Some eNotSupported
      else if \<not> (length (shape masks) = 4 \<and> data_type masks = kFLOAT) then Some eNotSupported
      else None)"

text \<open>Lines 75 and 76: \<^verbatim>\<open>prep_res["img_metas"]["ori_shape"][k].get<int>()\<close>.\<close>

definition ori_shape :: "('v, 'd) ops \<Rightarrow> 'v \<Rightarrow> nat \<Rightarrow> int outcome" where
  "ori_shape E prep_res k =
     bind (at_key E prep_res ''img_metas'') (\<lambda>metas.
     bind (at_key E metas ''ori_shape'') (\<lambda>s.
     bind (at_idx E s k) (\<lambda>v. get_int E v)))"

text \<open>
  The body of the \<^verbatim>\<open>try\<close> block. Line 79 calls \<^verbatim>\<open>ProcessMasks\<close> as a statement:
  whatever it returns is dropped, an exception it throws goes on, and so does undefined
  behaviour. The value returned at line 84 is the detection list (which \<^verbatim>\<open>to_value\<close>
  serialises).
\<close>

definition operator_body ::
  "('v, 'd) ops \<Rightarrow> ResizeInstanceMask_state \<Rightarrow> 'v \<Rightarrow> 'v \<Rightarrow> Detection list outcome" where
  "operator_body E self prep_res infer_res =
     bind (bind (at_key E infer_res ''dets'') (get_Tensor E)) (\<lambda>dets.
     bind (bind (at_key E infer_res ''labels'') (get_Tensor E)) (\<lambda>labels.
     bind (bind (at_key E infer_res ''masks'') (get_Tensor E)) (\<lambda>masks.
       (case validate dets labels masks of
          Some e \<Rightarrow> Inl (Status e)
        | None \<Rightarrow>
            bind (MakeAvailableOnDevice E dets) (\<lambda>host_dets.
            bind (MakeAvailableOnDevice E labels) (\<lambda>host_labels.
            bind (bind (at_key E prep_res ''img_metas'')
                    (\<lambda>metas. DispatchGetBBoxes E metas host_dets host_labels)) (\<lambda>result.
            bind (ori_shape E prep_res 2) (\<lambda>ori_w.
            bind (ori_shape E prep_res 1) (\<lambda>ori_h.
              (case ProcessMasks E self result masks host_dets ori_w ori_h of
                 (Inl Exception, result') \<Rightarrow> Inl Exception
               | (Inl Undefined, result') \<Rightarrow> Inl Undefined
               | (Inl (Status e), result') \<Rightarrow> Inr result'
               | (Inr u, result') \<Rightarrow> Inr result'))))))))))"

text \<open>
  Lines 28 to 89: the \<^verbatim>\<open>catch\<close> clause turns every exception into \<^verbatim>\<open>Status(eFail)\<close>.
  The result is \<open>Some\<close> of what the operator returns, an error code or the detection
  list, and \<open>None\<close> when the call runs into undefined behaviour.
\<close>

definition operator_call ::
  "('v, 'd) ops \<Rightarrow> ResizeInstanceMask_state \<Rightarrow> 'v \<Rightarrow> 'v \<Rightarrow>
   (ErrorCode + Detection list) option" where
  "operator_call E self prep_res infer_res =
     (case operator_body E self prep_res infer_res of
        Inl Exception \<Rightarrow> Some (Inl eFail)
      | Inl Undefined \<Rightarrow> None
      | Inl (Status e) \<Rightarrow> Some (Inl e)
      | Inr v \<Rightarrow> Some (Inr v))"

subsection \<open>The specification's formulas\<close>

text \<open>
  The clipped target rectangle as the specification words it: the primed corners, and
  the size as the rounded differences.
\<close>

definition spec_corners ::
  "real \<times> real \<times> real \<times> real \<Rightarrow> int \<Rightarrow> int \<Rightarrow> real \<times> real \<times> real \<times> real" where
  "spec_corners b img_w img_h =
     (case b of (x0, y0, x1, y1) \<Rightarrow>
        (max (of_int \<lfloor>x0\<rfloor> - 1) 0, max (of_int \<lfloor>y0\<rfloor> - 1) 0,
         min (of_int \<lceil>x1\<rceil> + 1) (of_int img_w), min (of_int \<lceil>y1\<rceil> + 1) (of_int img_h)))"

definition spec_width :: "real \<times> real \<times> real \<times> real \<Rightarrow> int \<Rightarrow> int \<Rightarrow> int" where
  "spec_width b img_w img_h =
     (case spec_corners b img_w img_h of (x0', y0', x1', y1') \<Rightarrow> round (x1' - x0'))"

definition spec_height :: "real \<times> real \<times> real \<times> real \<Rightarrow> int \<Rightarrow> int \<Rightarrow> int" where
  "spec_height b img_w img_h =
     (case spec_corners b img_w img_h of (x0', y0', x1', y1') \<Rightarrow> round (y1' - y0'))"

text \<open>
  The coefficients of the two conventions as the specification words them, a quotient
  by zero being no finite number.
\<close>

definition spec_quot :: "real \<Rightarrow> real \<Rightarrow> real option" where
  "spec_quot a b = (if b = 0 then None else Some (a / b))"

definition spec_convention_A ::
  "int \<Rightarrow> int \<Rightarrow> real \<times> real \<times> real \<times> real \<Rightarrow> real \<Rightarrow> real \<Rightarrow>
   real option \<times> real option \<times> real option \<times> real option" where
  "spec_convention_A mask_h mask_w b x0' y0' =
     (case b of (x0, y0, x1, y1) \<Rightarrow>
        (spec_quot (of_int mask_h) (x1 - x0),
         spec_quot (of_int mask_w) (y1 - y0),
         map_option (\<lambda>fx. (x0' + 1 / 2 - x0) * fx - 1 / 2) (spec_quot (of_int mask_h) (x1 - x0)),
         map_option (\<lambda>fy. (y0' + 1 / 2 - y0) * fy - 1 / 2) (spec_quot (of_int mask_w) (y1 - y0))))"

definition spec_convention_B ::
  "real \<times> real \<times> real \<times> real \<Rightarrow> real \<times> real \<times> real \<times> real \<Rightarrow> real \<Rightarrow> real \<Rightarrow>
   real option \<times> real option \<times> real option \<times> real option" where
  "spec_convention_B raw b x0' y0' =
     (case b of (x0, y0, x1, y1) \<Rightarrow>
      case raw of (raw_x0, raw_y0, raw_x1, raw_y1) \<Rightarrow>
        (spec_quot (raw_x1 - raw_x0) (x1 - x0),
         spec_quot (raw_y1 - raw_y0) (y1 - y0),
         map_option (\<lambda>fx. (x0' + 1 / 2 - x0) * fx - 1 / 2 + raw_x0)
           (spec_quot (raw_x1 - raw_x0) (x1 - x0)),
         map_option (\<lambda>fy. (y0' + 1 / 2 - y0) * fy - 1 / 2 + raw_y0)
           (spec_quot (raw_y1 - raw_y0) (y1 - y0))))"

subsection \<open>An example environment\<close>

text \<open>
  One choice of the collaborators, used for concrete runs: values are JSON-like trees,
  tensors keep their floats in a list on the host, the decoder reads one detection per
  row of \<^verbatim>\<open>dets\<close>, and the warp operator is a stand-in that rejects an empty target
  size and otherwise fills the target with the first sample of its source.
\<close>

datatype Json =
  JBool bool | JInt int | JReal real | JTensor "real list Tensor" | JArray "Json list"
  | JObject "(string \<times> Json) list"

definition json_contains :: "Json \<Rightarrow> string \<Rightarrow> bool" where
  "json_contains v k = (case v of JObject kvs \<Rightarrow> map_of kvs k \<noteq> None | _ \<Rightarrow> False)"

definition json_at_key :: "Json \<Rightarrow> string \<Rightarrow> Json outcome" where
  "json_at_key v k =
     (case v of
        JObject kvs \<Rightarrow> (case map_of kvs k of Some x \<Rightarrow> Inr x | None \<Rightarrow> Inl Exception)
      | _ \<Rightarrow> Inl Exception)"

definition json_at_idx :: "Json \<Rightarrow> nat \<Rightarrow> Json outcome" where
  "json_at_idx v n =
     (case v of
        JArray xs \<Rightarrow> (if n < length xs then Inr (xs ! n) else Inl Exception)
      | _ \<Rightarrow> Inl Exception)"

definition json_value_float :: "Json \<Rightarrow> string \<Rightarrow> real \<Rightarrow> real outcome" where
  "json_value_float v k d =
     (case v of
        JObject kvs \<Rightarrow>
          (case map_of kvs k of
             None \<Rightarrow> Inr d
           | Some (JReal r) \<Rightarrow> Inr r
           | Some (JInt i) \<Rightarrow> Inr (of_int i)
           | Some _ \<Rightarrow> Inl Exception)
      | _ \<Rightarrow> Inl Exception)"

definition json_get_int :: "Json \<Rightarrow> int outcome" where
  "json_get_int v = (case v of JInt i \<Rightarrow> Inr i | _ \<Rightarrow> Inl Exception)"

definition json_get_Tensor :: "Json \<Rightarrow> real list Tensor outcome" where
  "json_get_Tensor v = (case v of JTensor t \<Rightarrow> Inr t | _ \<Rightarrow> Inl Exception)"

definition host_Squeeze :: "real list Tensor \<Rightarrow> nat \<Rightarrow> real list Tensor" where
  "host_Squeeze t k =
     (if k < length (shape t) \<and> shape t ! k = 1
      then t\<lparr>shape := take k (shape t) @ drop (Suc k) (shape t)\<rparr> else t)"

definition host_Slice :: "real list Tensor \<Rightarrow> int \<Rightarrow> real list Tensor" where
  "host_Slice t i =
     (let n = nat (prod_list (tl (shape t)))
      in t\<lparr>shape := 1 # tl (shape t), buffer := take n (drop (nat i * n) (buffer t))\<rparr>)"

definition host_Reshape :: "real list Tensor \<Rightarrow> int list \<Rightarrow> real list Tensor" where
  "host_Reshape t s = t\<lparr>shape := s\<rparr>"

definition host_data_float :: "real list Tensor \<Rightarrow> nat \<Rightarrow> real" where
  "host_data_float t k = (if k < length (buffer t) then buffer t ! k else 0)"

fun rows_to_detections :: "real list Tensor \<Rightarrow> nat \<Rightarrow> nat \<Rightarrow> Detection list" where
  "rows_to_detections t i 0 = []"
| "rows_to_detections t i (Suc n) =
     (let row = host_Slice t (int i)
      in \<lparr>index = int i, label_id = 0, score = host_data_float row 4,
          bbox = (host_data_float row 0, host_data_float row 1,
                  host_data_float row 2, host_data_float row 3),
          mask = None\<rparr> # rows_to_detections t (Suc i) n)"

definition host_DispatchGetBBoxes ::
  "Json \<Rightarrow> real list Tensor \<Rightarrow> real list Tensor \<Rightarrow> Detection list outcome" where
  "host_DispatchGetBBoxes metas dets labels =
     (let t = host_Squeeze dets 0
      in Inr (rows_to_detections t 0 (case shape t of [] \<Rightarrow> 0 | n # _ \<Rightarrow> nat n)))"

definition host_warp ::
  "real list Tensor \<Rightarrow> real option list \<Rightarrow> int \<Rightarrow> int \<Rightarrow> real list Tensor outcome" where
  "host_warp src m h w =
     (if h \<le> 0 \<or> w \<le> 0 then Inl (Status (eOtherError 1))
      else Inr \<lparr>shape = [1, h, w, 1], data_type = kFLOAT,
                buffer = replicate (nat (h * w)) (host_data_float src 0)\<rparr>)"

definition host_Tensor2CVMat :: "real list Tensor \<Rightarrow> real cvMat outcome" where
  "host_Tensor2CVMat t =
     (case shape t of
        [n, h, w, c] \<Rightarrow> Inr \<lparr>rows = h, cols = w, elems = buffer t\<rparr>
      | _ \<Rightarrow> Inl Exception)"

definition host_ops :: "(Json, real list) ops" where
  "host_ops =
     \<lparr>contains = json_contains, at_key = json_at_key, at_idx = json_at_idx,
      value_float = json_value_float, get_int = json_get_int, get_Tensor = json_get_Tensor,
      Squeeze = host_Squeeze, Slice = host_Slice, Reshape = host_Reshape,
      data_float = host_data_float, MakeAvailableOnDevice = Inr,
      DispatchGetBBoxes = host_DispatchGetBBoxes, warp_affine_Apply = host_warp,
      Tensor2CVMat = host_Tensor2CVMat\<rparr>"

text \<open>
  Example data: two \<open>2 \<times> 2\<close> masks, two rows of detections for a \<open>4 \<times> 4\<close> image, the
  second of which lies to the right of the image.
\<close>

definition ex_masks :: "real list Tensor" where
  "ex_masks = \<lparr>shape = [1, 2, 2, 2], data_type = kFLOAT,
               buffer = [9 / 10, 1 / 5, 3 / 10, 2 / 5, 1 / 10, 1 / 2, 3 / 5, 4 / 5]\<rparr>"

definition ex_dets :: "real list Tensor" where
  "ex_dets = \<lparr>shape = [1, 2, 5], data_type = kFLOAT,
              buffer = [1, 1, 2, 2, 9 / 10, 7, 1, 8, 2, 4 / 5]\<rparr>"

definition ex_labels :: "real list Tensor" where
  "ex_labels = \<lparr>shape = [1, 2], data_type = kOtherDataType 3, buffer = [0, 0]\<rparr>"

definition ex_infer_res :: Json where
  "ex_infer_res =
     JObject [(''dets'', JTensor ex_dets), (''labels'', JTensor ex_labels),
              (''masks'', JTensor ex_masks)]"

definition ex_prep_res :: Json where
  "ex_prep_res =
     JObject [(''img_metas'', JObject [(''ori_shape'', JArray [JInt 1, JInt 4, JInt 4, JInt 3])])]"

definition ex_self :: ResizeInstanceMask_state where
  "ex_self = \<lparr>mask_thr_binary = 1 / 2, is_rcnn = True\<rparr>"

definition ex_det :: "int \<Rightarrow> real \<Rightarrow> real \<times> real \<times> real \<times> real \<Rightarrow> Detection" where
  "ex_det i s b = \<lparr>index = i, label_id = 0, score = s, bbox = b, mask = None\<rparr>"

definition ex_mat :: "int \<Rightarrow> int \<Rightarrow> 8 word list \<Rightarrow> Mat" where
  "ex_mat h w d =
     \<lparr>mat_height = h, mat_width = w, mat_format = kGRAYSCALE, mat_type = kINT8, mat_data = d\<rparr>"

definition ex_dets_2d :: "real list Tensor" where
  "ex_dets_2d = \<lparr>shape = [2, 5], data_type = kFLOAT,
                 buffer = [1, 1, 2, 2, 9 / 10, 7, 1, 8, 2, 4 / 5]\<rparr>"

definition ex_infer_res_2d :: Json where
  "ex_infer_res_2d =
     JObject [(''dets'', JTensor ex_dets_2d), (''labels'', JTensor ex_labels),
              (''masks'', JTensor ex_masks)]"

definition ex_raster :: "real cvMat" where
  "ex_raster = \<lparr>rows = 1, cols = 3, elems = [2 / 5, 1 / 2, 3 / 5]\<rparr>"

text \<open>
  Example data with three detections, in two versions that differ only in the box of the
  first detection (the first row of \<^verbatim>\<open>dets\<close>): inside the \<open>4 \<times> 4\<close> image in the one,
  to the right of it in the other. The box of the third detection lies to the right of
  the image in both.
\<close>

definition ex_masks3 :: "real list Tensor" where
  "ex_masks3 = \<lparr>shape = [1, 3, 2, 2], data_type = kFLOAT,
                buffer = [9 / 10, 1 / 5, 3 / 10, 2 / 5, 1 / 10, 1 / 2, 3 / 5, 4 / 5,
                          7 / 10, 1 / 5, 1 / 5, 1 / 5]\<rparr>"

definition ex_labels3 :: "real list Tensor" where
  "ex_labels3 = \<lparr>shape = [1, 3], data_type = kOtherDataType 3, buffer = [0, 0, 0]\<rparr>"

definition ex_dets3 :: "real \<times> real \<times> real \<times> real \<Rightarrow> real list Tensor" where
  "ex_dets3 b =
     (case b of (b0, b1, b2, b3) \<Rightarrow>
        \<lparr>shape = [1, 3, 5], data_type = kFLOAT,
         buffer = [b0, b1, b2, b3, 9 / 10, 1, 1, 2, 2, 4 / 5, 7, 1, 8, 2, 7 / 10]\<rparr>)"

definition ex_infer_res3 :: "real \<times> real \<times> real \<times> real \<Rightarrow> Json" where
  "ex_infer_res3 b =
     JObject [(''dets'', JTensor (ex_dets3 b)), (''labels'', JTensor ex_labels3),
              (''masks'', JTensor ex_masks3)]"

subsection \<open>Reaching a detection\<close>

text \<open>
  The loop reaches position \<open>i\<close> of the list when the body has processed every
  detection before it without a failure.
\<close>

definition processed_before ::
  "('v, 'd) ops \<Rightarrow> ResizeInstanceMask_state \<Rightarrow> 'd Tensor \<Rightarrow> 'd Tensor \<Rightarrow> int \<Rightarrow> int \<Rightarrow>
   Detection list \<Rightarrow> nat \<Rightarrow> bool" where
  "processed_before E self masks cpu_dets img_w img_h ds i =
     list_all (\<lambda>d. \<not> isl (process_det E self masks cpu_dets img_w img_h d)) (take i ds)"

section \<open>Properties\<close>

subsection \<open>Auxiliary facts\<close>

lemma host_ops_sel:
  "contains host_ops = json_contains" "at_key host_ops = json_at_key"
  "at_idx host_ops = json_at_idx" "value_float host_ops = json_value_float"
  "get_int host_ops = json_get_int" "get_Tensor host_ops = json_get_Tensor"
  "Squeeze host_ops = host_Squeeze" "Slice host_ops = host_Slice"
  "Reshape host_ops = host_Reshape" "data_float host_ops = host_data_float"
  "MakeAvailableOnDevice host_ops = Inr" "DispatchGetBBoxes host_ops = host_DispatchGetBBoxes"
  "warp_affine_Apply host_ops = host_warp" "Tensor2CVMat host_ops = host_Tensor2CVMat"
  by (simp_all add: host_ops_def)

lemmas host_defs =
  host_ops_sel host_Squeeze_def host_Slice_def host_Reshape_def host_data_float_def
  host_warp_def host_Tensor2CVMat_def host_DispatchGetBBoxes_def json_contains_def
  json_at_key_def json_at_idx_def json_value_float_def json_get_int_def json_get_Tensor_def

lemmas model_defs =
  process_det_def shape_at_def bind_def raw_bbox_data_def target_rect_def rect_width_def
  rect_height_def static_cast_int_def affine_coeffs_def affine_matrix_def fdiv_def cv_gt_def

lemmas ex_defs =
  ex_masks_def ex_dets_def ex_labels_def ex_infer_res_def ex_prep_res_def ex_self_def
  ex_det_def ex_mat_def ex_dets_2d_def ex_infer_res_2d_def ex_raster_def
  ex_masks3_def ex_labels3_def ex_dets3_def ex_infer_res3_def

lemma static_cast_int_of_int: "static_cast_int (of_int k) = k"
  by (simp add: static_cast_int_def)

lemma round_diff_of_int: "round (of_int a - (of_int b :: real)) = a - b"
  by (metis of_int_diff round_of_int)

lemma max_of_int_0: "max (real_of_int a - 1) 0 = of_int (max (a - 1) 0)"
  by (simp add: max_def)

lemma min_of_int: "min (real_of_int a + 1) (of_int w) = of_int (min (a + 1) w)"
  by (simp add: min_def)

lemma rect_width_int:
  "rect_width (target_rect (b0, b1, b2, b3) img_w img_h) =
     min (\<lceil>b2\<rceil> + 1) img_w - max (\<lfloor>b0\<rfloor> - 1) 0"
  unfolding rect_width_def target_rect_def
  by (simp only: prod.case max_of_int_0 min_of_int of_int_diff [symmetric] static_cast_int_of_int)

lemma rect_height_int:
  "rect_height (target_rect (b0, b1, b2, b3) img_w img_h) =
     min (\<lceil>b3\<rceil> + 1) img_h - max (\<lfloor>b1\<rfloor> - 1) 0"
  unfolding rect_height_def target_rect_def
  by (simp only: prod.case max_of_int_0 min_of_int of_int_diff [symmetric] static_cast_int_of_int)

lemma spec_width_int:
  "spec_width (b0, b1, b2, b3) img_w img_h =
     min (\<lceil>b2\<rceil> + 1) img_w - max (\<lfloor>b0\<rfloor> - 1) 0"
  unfolding spec_width_def spec_corners_def
  by (simp only: prod.case max_of_int_0 min_of_int round_diff_of_int)

lemma spec_height_int:
  "spec_height (b0, b1, b2, b3) img_w img_h =
     min (\<lceil>b3\<rceil> + 1) img_h - max (\<lfloor>b1\<rfloor> - 1) 0"
  unfolding spec_height_def spec_corners_def
  by (simp only: prod.case max_of_int_0 min_of_int round_diff_of_int)

lemma rect_width_spec: "rect_width (target_rect b img_w img_h) = spec_width b img_w img_h"
  by (cases b) (simp only: rect_width_int spec_width_int)

lemma rect_height_spec: "rect_height (target_rect b img_w img_h) = spec_height b img_w img_h"
  by (cases b) (simp only: rect_height_int spec_height_int)

lemma bind_Inr_iff: "bind r f = Inr y \<longleftrightarrow> (\<exists>v. r = Inr v \<and> f v = Inr y)"
  by (cases r) (simp_all add: bind_def)

text \<open>A detection that the loop body processes keeps all its fields but the mask.\<close>

lemma process_det_Inr:
  assumes "process_det E self masks cpu_dets img_w img_h det = Inr det'"
  shows "\<exists>d. det' = det\<lparr>mask := Some \<lparr>mat_height = rect_height (target_rect (bbox det) img_w img_h),
                                   mat_width = rect_width (target_rect (bbox det) img_w img_h),
                                   mat_format = kGRAYSCALE, mat_type = kINT8, mat_data = d\<rparr>\<rparr>"
  using assms unfolding process_det_def Let_def bind_Inr_iff by auto

lemma ex_process_det_inside:
  "process_det host_ops ex_self (host_Squeeze ex_masks 0) (host_Squeeze ex_dets 0) 4 4
     (ex_det 0 (9 / 10) (1, 1, 2, 2))
   = Inr ((ex_det 0 (9 / 10) (1, 1, 2, 2))
            \<lparr>mask := Some (ex_mat 3 3 [255, 255, 255, 255, 255, 255, 255, 255, 255])\<rparr>)"
  by (simp add: model_defs host_defs ex_defs Let_def numeral_eq_Suc)

lemma ex_process_det_outside:
  "process_det host_ops ex_self (host_Squeeze ex_masks 0) (host_Squeeze ex_dets 0) 4 4
     (ex_det i s (7, 1, 8, 2))
   = Inl (Status (eOtherError 1))"
  by (simp add: model_defs host_defs ex_defs Let_def)

subsection \<open>Size of the emitted mask\<close>

text \<open>
  Claim C1. For every detection that the loop body processes, the width and the height
  of the mask it emits are those of the clipped target rectangle of the specification,
  computed from the detection's box and the image size: the rounded differences of the
  primed corners. For the box \<open>[10, 10, 50, 50]\<close> in a \<open>100 \<times> 100\<close> image the corners
  are \<open>9, 9, 51, 51\<close> and width and height are 42.
\<close>

theorem mask_size_is_clipped_rectangle:
  assumes "process_det E self masks cpu_dets img_w img_h det = Inr det'"
  shows "(\<exists>m. mask det' = Some m
            \<and> mat_width m = spec_width (bbox det) img_w img_h
            \<and> mat_height m = spec_height (bbox det) img_w img_h)
         \<and> spec_corners (10, 10, 50, 50) 100 100 = (9, 9, 51, 51)
         \<and> target_rect (10, 10, 50, 50) 100 100 = (9, 9, 51, 51)
         \<and> spec_width (10, 10, 50, 50) 100 100 = 42
         \<and> spec_height (10, 10, 50, 50) 100 100 = 42
         \<and> rect_width (target_rect (10, 10, 50, 50) 100 100) = 42
         \<and> rect_height (target_rect (10, 10, 50, 50) 100 100) = 42"
proof -
  from process_det_Inr [OF assms] obtain d where
    d: "det' = det\<lparr>mask := Some \<lparr>mat_height = rect_height (target_rect (bbox det) img_w img_h),
                                   mat_width = rect_width (target_rect (bbox det) img_w img_h),
                                   mat_format = kGRAYSCALE, mat_type = kINT8, mat_data = d\<rparr>\<rparr>"
    by blast
  have size: "\<exists>m. mask det' = Some m
            \<and> mat_width m = spec_width (bbox det) img_w img_h
            \<and> mat_height m = spec_height (bbox det) img_w img_h"
    by (simp add: d rect_width_spec rect_height_spec)
  have corners: "spec_corners (10, 10, 50, 50) 100 100 = (9, 9, 51, 51)"
    by (simp add: spec_corners_def)
  have corners': "target_rect (10, 10, 50, 50) 100 100 = (9, 9, 51, 51)"
    by (simp add: target_rect_def)
  have w: "spec_width (10, 10, 50, 50) 100 100 = 42"
    by (simp add: spec_width_int)
  have h: "spec_height (10, 10, 50, 50) 100 100 = 42"
    by (simp add: spec_height_int)
  have w': "rect_width (target_rect (10, 10, 50, 50) 100 100) = 42"
    by (simp add: rect_width_int)
  have h': "rect_height (target_rect (10, 10, 50, 50) 100 100) = 42"
    by (simp add: rect_height_int)
  from size corners corners' w h w' h' show ?thesis by blast
qed

theorem mask_size_is_clipped_rectangle_witness:
  "process_det host_ops ex_self (host_Squeeze ex_masks 0) (host_Squeeze ex_dets 0) 4 4
     (ex_det 0 (9 / 10) (1, 1, 2, 2))
   = Inr ((ex_det 0 (9 / 10) (1, 1, 2, 2))
            \<lparr>mask := Some (ex_mat 3 3 [255, 255, 255, 255, 255, 255, 255, 255, 255])\<rparr>)
   \<and> spec_width (bbox (ex_det 0 (9 / 10) (1, 1, 2, 2))) 4 4 = 3
   \<and> spec_height (bbox (ex_det 0 (9 / 10) (1, 1, 2, 2))) 4 4 = 3"
  using mask_size_is_clipped_rectangle [OF ex_process_det_inside] ex_process_det_inside
  by (simp add: ex_mat_def)

subsection \<open>Affine coefficients\<close>

lemma fdiv_spec_quot: "fdiv a b = spec_quot a b"
  by (simp add: fdiv_def spec_quot_def)

lemma affine_coeffs_A:
  "affine_coeffs True mask_h mask_w b x0' y0' raw = spec_convention_A mask_h mask_w b x0' y0'"
  by (cases b; cases raw)
     (simp add: affine_coeffs_def spec_convention_A_def fdiv_spec_quot Let_def)

lemma affine_coeffs_B:
  "affine_coeffs False mask_h mask_w b x0' y0' raw = spec_convention_B raw b x0' y0'"
  by (cases b; cases raw)
     (simp add: affine_coeffs_def spec_convention_B_def fdiv_spec_quot Let_def)

text \<open>
  What the loop body hands to the warp operator and what it stores: the reshaped slice,
  the matrix of the coefficients at the corner \<open>(x0, y0)\<close> of the target rectangle,
  the height and the width; then the thresholded raster under that height and width.
\<close>

lemma process_det_unfolded:
  "process_det E self masks cpu_dets img_w img_h det =
     bind (shape_at (Slice E masks (index det)) 1) (\<lambda>mask_height.
     bind (shape_at (Slice E masks (index det)) 2) (\<lambda>mask_width.
     bind (warp_affine_Apply E
             (Reshape E (Slice E masks (index det)) [1, mask_height, mask_width, 1])
             (affine_matrix
                (affine_coeffs (is_rcnn self) mask_height mask_width (bbox det)
                   (fst (target_rect (bbox det) img_w img_h))
                   (fst (snd (target_rect (bbox det) img_w img_h)))
                   (raw_bbox_data E cpu_dets det)))
             (rect_height (target_rect (bbox det) img_w img_h))
             (rect_width (target_rect (bbox det) img_w img_h))) (\<lambda>warped_mask.
     bind (MakeAvailableOnDevice E warped_mask) (\<lambda>host_mask.
     bind (Tensor2CVMat E host_mask) (\<lambda>warped_mat.
       Inr (det\<lparr>mask := Some \<lparr>mat_height = rect_height (target_rect (bbox det) img_w img_h),
                                mat_width = rect_width (target_rect (bbox det) img_w img_h),
                                mat_format = kGRAYSCALE, mat_type = kINT8,
                                mat_data = elems (cv_gt warped_mat (mask_thr_binary self))\<rparr>\<rparr>))))))"
  by (simp add: process_det_def Let_def)

lemma target_rect_spec: "target_rect b img_w img_h = spec_corners b img_w img_h"
  by (simp add: target_rect_def spec_corners_def)

lemma affine_coeffs_spec:
  "affine_coeffs (is_rcnn self) mask_h mask_w (bbox det) x0' y0' (raw_bbox_data E cpu_dets det) =
     (if is_rcnn self then spec_convention_A mask_h mask_w (bbox det) x0' y0'
      else spec_convention_B
             (data_float E (Slice E cpu_dets (index det)) 0,
              data_float E (Slice E cpu_dets (index det)) 1,
              data_float E (Slice E cpu_dets (index det)) 2,
              data_float E (Slice E cpu_dets (index det)) 3) (bbox det) x0' y0')"
  by (simp add: affine_coeffs_A affine_coeffs_B raw_bbox_data_def Let_def)

text \<open>
  Claim C2. For every detection the coefficients are those of the formula that the
  convention selects: under Convention A \<open>fx = mask_h / (x1 - x0)\<close>,
  \<open>fy = mask_w / (y1 - y0)\<close>, \<open>tx = (x0' + 0.5 - x0) * fx - 0.5\<close>,
  \<open>ty = (y0' + 0.5 - y0) * fy - 0.5\<close>; under Convention B
  \<open>fx = (raw_x1 - raw_x0) / (x1 - x0)\<close>, \<open>fy = (raw_y1 - raw_y0) / (y1 - y0)\<close>,
  \<open>tx = (x0' + 0.5 - x0) * fx - 0.5 + raw_x0\<close>, \<open>ty = (y0' + 0.5 - y0) * fy - 0.5 + raw_y0\<close>,
  the raw box being the first four floats of the detection's row of the detection tensor.
  The loop body hands the matrix \<open>[fx, 0, tx, 0, fy, ty]\<close> of these coefficients, taken
  at the primed corner \<open>(x0', y0')\<close> of the clipped rectangle, to the warp operator.
\<close>

theorem coefficients_follow_convention:
  "affine_coeffs (is_rcnn self) mask_h mask_w (bbox det) x0' y0' (raw_bbox_data E cpu_dets det) =
     (if is_rcnn self then spec_convention_A mask_h mask_w (bbox det) x0' y0'
      else spec_convention_B
             (data_float E (Slice E cpu_dets (index det)) 0,
              data_float E (Slice E cpu_dets (index det)) 1,
              data_float E (Slice E cpu_dets (index det)) 2,
              data_float E (Slice E cpu_dets (index det)) 3) (bbox det) x0' y0')
   \<and> process_det E self masks cpu_dets img_w img_h det =
     bind (shape_at (Slice E masks (index det)) 1) (\<lambda>mh.
     bind (shape_at (Slice E masks (index det)) 2) (\<lambda>mw.
     bind (warp_affine_Apply E (Reshape E (Slice E masks (index det)) [1, mh, mw, 1])
             (case (if is_rcnn self
                    then spec_convention_A mh mw (bbox det)
                           (fst (spec_corners (bbox det) img_w img_h))
                           (fst (snd (spec_corners (bbox det) img_w img_h)))
                    else spec_convention_B
                           (data_float E (Slice E cpu_dets (index det)) 0,
                            data_float E (Slice E cpu_dets (index det)) 1,
                            data_float E (Slice E cpu_dets (index det)) 2,
                            data_float E (Slice E cpu_dets (index det)) 3) (bbox det)
                           (fst (spec_corners (bbox det) img_w img_h))
                           (fst (snd (spec_corners (bbox det) img_w img_h))))
              of (fx, fy, tx, ty) \<Rightarrow> [fx, Some 0, tx, Some 0, fy, ty])
             (spec_height (bbox det) img_w img_h) (spec_width (bbox det) img_w img_h))
       (\<lambda>warped_mask.
     bind (MakeAvailableOnDevice E warped_mask) (\<lambda>host_mask.
     bind (Tensor2CVMat E host_mask) (\<lambda>warped_mat.
       Inr (det\<lparr>mask := Some \<lparr>mat_height = spec_height (bbox det) img_w img_h,
                                mat_width = spec_width (bbox det) img_w img_h,
                                mat_format = kGRAYSCALE, mat_type = kINT8,
                                mat_data = elems (cv_gt warped_mat (mask_thr_binary self))\<rparr>\<rparr>))))))"
proof -
  have body: "process_det E self masks cpu_dets img_w img_h det =
     bind (shape_at (Slice E masks (index det)) 1) (\<lambda>mh.
     bind (shape_at (Slice E masks (index det)) 2) (\<lambda>mw.
     bind (warp_affine_Apply E (Reshape E (Slice E masks (index det)) [1, mh, mw, 1])
             (affine_matrix
                (affine_coeffs (is_rcnn self) mh mw (bbox det)
                   (fst (spec_corners (bbox det) img_w img_h))
                   (fst (snd (spec_corners (bbox det) img_w img_h)))
                   (raw_bbox_data E cpu_dets det)))
             (spec_height (bbox det) img_w img_h) (spec_width (bbox det) img_w img_h))
       (\<lambda>warped_mask.
     bind (MakeAvailableOnDevice E warped_mask) (\<lambda>host_mask.
     bind (Tensor2CVMat E host_mask) (\<lambda>warped_mat.
       Inr (det\<lparr>mask := Some \<lparr>mat_height = spec_height (bbox det) img_w img_h,
                                mat_width = spec_width (bbox det) img_w img_h,
                                mat_format = kGRAYSCALE, mat_type = kINT8,
                                mat_data = elems (cv_gt warped_mat (mask_thr_binary self))\<rparr>\<rparr>))))))"
    by (simp only: process_det_unfolded rect_width_spec rect_height_spec)
       (simp only: target_rect_spec)
  show ?thesis
    by (rule conjI, rule affine_coeffs_spec) (simp only: body affine_coeffs_spec affine_matrix_def)
qed

subsection \<open>Validation\<close>

lemma operator_call_invalid:
  assumes "bind (at_key E infer_res ''dets'') (get_Tensor E) = Inr dets"
      and "bind (at_key E infer_res ''labels'') (get_Tensor E) = Inr labels"
      and "bind (at_key E infer_res ''masks'') (get_Tensor E) = Inr masks"
      and "validate dets labels masks = Some e"
  shows "operator_call E self prep_res infer_res = Some (Inl e)"
  using assms by (simp add: operator_call_def operator_body_def bind_def)

lemma validate_None_iff:
  "validate dets labels masks = None \<longleftrightarrow>
     (length (shape dets) = 3 \<and> data_type dets = kFLOAT) \<and> length (shape labels) = 2
     \<and> (length (shape masks) = 4 \<and> data_type masks = kFLOAT)"
  by (auto simp add: validate_def)

lemma validate_Some: "validate dets labels masks = Some e \<Longrightarrow> e = eNotSupported"
  by (simp add: validate_def split: if_splits)

lemma ex_get_tensors:
  "bind (at_key host_ops ex_infer_res ''dets'') (get_Tensor host_ops) = Inr ex_dets"
  "bind (at_key host_ops ex_infer_res ''labels'') (get_Tensor host_ops) = Inr ex_labels"
  "bind (at_key host_ops ex_infer_res ''masks'') (get_Tensor host_ops) = Inr ex_masks"
  "bind (at_key host_ops ex_infer_res_2d ''dets'') (get_Tensor host_ops) = Inr ex_dets_2d"
  "bind (at_key host_ops ex_infer_res_2d ''labels'') (get_Tensor host_ops) = Inr ex_labels"
  "bind (at_key host_ops ex_infer_res_2d ''masks'') (get_Tensor host_ops) = Inr ex_masks"
  by (simp_all add: bind_def host_ops_sel json_at_key_def json_get_Tensor_def ex_infer_res_def
      ex_infer_res_2d_def)

text \<open>
  Claim C3. When the three tensors are read from the inference result: if \<^verbatim>\<open>dets\<close> does
  not have exactly 3 dimensions with element type \<^verbatim>\<open>kFLOAT\<close>, or \<^verbatim>\<open>labels\<close> does not
  have exactly 2 dimensions, or \<^verbatim>\<open>masks\<close> does not have exactly 4 dimensions with
  element type \<^verbatim>\<open>kFLOAT\<close>, the call returns \<^verbatim>\<open>eNotSupported\<close> and no detection list,
  whatever the other collaborators, the object's members and the preprocessing result
  are (none of them is consulted, so nothing is done per detection); if the three checks
  pass, validation returns no error.
\<close>

theorem invalid_tensors_are_unsupported:
  fixes E :: "('v, 'd) ops"
  assumes "bind (at_key E infer_res ''dets'') (get_Tensor E) = Inr dets"
      and "bind (at_key E infer_res ''labels'') (get_Tensor E) = Inr labels"
      and "bind (at_key E infer_res ''masks'') (get_Tensor E) = Inr masks"
  shows "(\<not> (length (shape dets) = 3 \<and> data_type dets = kFLOAT) \<or> length (shape labels) \<noteq> 2
            \<or> \<not> (length (shape masks) = 4 \<and> data_type masks = kFLOAT)
          \<longrightarrow> operator_call E self prep_res infer_res = Some (Inl eNotSupported)
              \<and> (\<forall>E' self' prep_res'. at_key E' = at_key E \<and> get_Tensor E' = get_Tensor E
                    \<longrightarrow> operator_call E' self' prep_res' infer_res = Some (Inl eNotSupported)))
         \<and> ((length (shape dets) = 3 \<and> data_type dets = kFLOAT) \<and> length (shape labels) = 2
              \<and> (length (shape masks) = 4 \<and> data_type masks = kFLOAT)
            \<longrightarrow> validate dets labels masks = None)"
proof -
  have bad: "operator_call E' self' prep_res' infer_res = Some (Inl eNotSupported)"
    if "validate dets labels masks \<noteq> None" "at_key E' = at_key E" "get_Tensor E' = get_Tensor E"
    for E' :: "('v, 'd) ops" and self' prep_res'
  proof -
    from that(1) obtain e where e: "validate dets labels masks = Some e" by blast
    then have "e = eNotSupported" by (rule validate_Some)
    with e have v: "validate dets labels masks = Some eNotSupported" by simp
    show ?thesis
      by (rule operator_call_invalid [where dets = dets and labels = labels and masks = masks])
         (simp_all add: that(2) that(3) assms v)
  qed
  show ?thesis
    using bad [of E] bad validate_None_iff [of dets labels masks] by blast
qed

theorem invalid_tensors_are_unsupported_witness:
  "length (shape ex_dets_2d) \<noteq> 3
   \<and> operator_call host_ops ex_self ex_prep_res ex_infer_res_2d = Some (Inl eNotSupported)
   \<and> length (shape ex_dets) = 3 \<and> data_type ex_dets = kFLOAT \<and> length (shape ex_labels) = 2
   \<and> length (shape ex_masks) = 4 \<and> data_type ex_masks = kFLOAT
   \<and> validate ex_dets ex_labels ex_masks = None"
proof -
  have bad: "length (shape ex_dets_2d) \<noteq> 3" by (simp add: ex_dets_2d_def)
  have good: "length (shape ex_dets) = 3" "data_type ex_dets = kFLOAT"
    "length (shape ex_labels) = 2" "length (shape ex_masks) = 4" "data_type ex_masks = kFLOAT"
    by (simp_all add: ex_dets_def ex_labels_def ex_masks_def)
  from invalid_tensors_are_unsupported [OF ex_get_tensors(4-6), of ex_self ex_prep_res] bad
  have 1: "operator_call host_ops ex_self ex_prep_res ex_infer_res_2d = Some (Inl eNotSupported)"
    by blast
  from invalid_tensors_are_unsupported [OF ex_get_tensors(1-3), of ex_self ex_prep_res] good
  have 2: "validate ex_dets ex_labels ex_masks = None" by blast
  from bad good 1 2 show ?thesis by blast
qed

text \<open>
  Claim C10. Validation never reads the element type of \<^verbatim>\<open>labels\<close>: its outcome is the
  same for every element type of \<^verbatim>\<open>labels\<close>, and it passes exactly when \<^verbatim>\<open>dets\<close> has 3
  dimensions and type \<^verbatim>\<open>kFLOAT\<close>, \<^verbatim>\<open>labels\<close> has 2 dimensions, and \<^verbatim>\<open>masks\<close> has 4
  dimensions and type \<^verbatim>\<open>kFLOAT\<close>; another element type of \<^verbatim>\<open>dets\<close> or of \<^verbatim>\<open>masks\<close> is
  rejected.
\<close>

theorem labels_dtype_is_not_checked:
  "validate dets (labels\<lparr>data_type := dt\<rparr>) masks = validate dets labels masks
   \<and> (validate dets labels masks = None) =
       ((length (shape dets) = 3 \<and> data_type dets = kFLOAT) \<and> length (shape labels) = 2
        \<and> (length (shape masks) = 4 \<and> data_type masks = kFLOAT))
   \<and> validate (dets\<lparr>data_type := kINT8\<rparr>) labels masks = Some eNotSupported
   \<and> validate dets labels (masks\<lparr>data_type := kINT8\<rparr>) = Some eNotSupported"
  by (auto simp add: validate_def)

subsection \<open>Thresholding\<close>

lemma process_det_Inr_data:
  assumes "process_det E self masks cpu_dets img_w img_h det = Inr det'"
  obtains t t' warped_mat where
    "MakeAvailableOnDevice E t = Inr t'" and "Tensor2CVMat E t' = Inr warped_mat"
    and "det' = det\<lparr>mask := Some \<lparr>mat_height = rect_height (target_rect (bbox det) img_w img_h),
                                   mat_width = rect_width (target_rect (bbox det) img_w img_h),
                                   mat_format = kGRAYSCALE, mat_type = kINT8,
                                   mat_data = elems (cv_gt warped_mat (mask_thr_binary self))\<rparr>\<rparr>"
proof -
  from assms [unfolded process_det_unfolded bind_Inr_iff] obtain t t' warped_mat where
    1: "MakeAvailableOnDevice E t = Inr t'" and 2: "Tensor2CVMat E t' = Inr warped_mat"
    and 3: "Inr (det\<lparr>mask := Some \<lparr>mat_height = rect_height (target_rect (bbox det) img_w img_h),
                                   mat_width = rect_width (target_rect (bbox det) img_w img_h),
                                   mat_format = kGRAYSCALE, mat_type = kINT8,
                                   mat_data = elems (cv_gt warped_mat (mask_thr_binary self))\<rparr>\<rparr>)
          = (Inr det' :: Detection outcome)"
    by blast
  from 3 have "det' = det\<lparr>mask := Some \<lparr>mat_height = rect_height (target_rect (bbox det) img_w img_h),
                                   mat_width = rect_width (target_rect (bbox det) img_w img_h),
                                   mat_format = kGRAYSCALE, mat_type = kINT8,
                                   mat_data = elems (cv_gt warped_mat (mask_thr_binary self))\<rparr>\<rparr>"
    by simp
  with 1 2 show thesis by (rule that)
qed

text \<open>
  Claim C6. For every raster and every threshold the binarizer gives a raster of the
  same dimensions in which an element is nonzero (it is then 255) exactly when the
  element of the input is strictly greater than the threshold; an element equal to the
  threshold gives 0. The data of the mask that the loop body emits is this raster for the
  resampled raster that the collaborators return and the threshold of the object.
\<close>

theorem binarizer_is_strict_threshold:
  "rows (cv_gt m thr) = rows m \<and> cols (cv_gt m thr) = cols m
   \<and> length (elems (cv_gt m thr)) = length (elems m)
   \<and> (\<forall>k < length (elems m).
         (elems (cv_gt m thr) ! k \<noteq> 0) = (elems m ! k > thr)
         \<and> (elems m ! k = thr \<longrightarrow> elems (cv_gt m thr) ! k = 0)
         \<and> (elems (cv_gt m thr) ! k = (if elems m ! k > thr then 255 else 0)))
   \<and> (process_det E self masks cpu_dets img_w img_h det = Inr det' \<longrightarrow>
        (\<exists>t t' warped_mat mat.
            MakeAvailableOnDevice E t = Inr t' \<and> Tensor2CVMat E t' = Inr warped_mat
          \<and> mask det' = Some mat
          \<and> length (mat_data mat) = length (elems warped_mat)
          \<and> (\<forall>k < length (elems warped_mat).
                (mat_data mat ! k \<noteq> 0) = (elems warped_mat ! k > mask_thr_binary self))))"
proof -
  have cmp: "rows (cv_gt m thr) = rows m \<and> cols (cv_gt m thr) = cols m
   \<and> length (elems (cv_gt m thr)) = length (elems m)
   \<and> (\<forall>k < length (elems m).
         (elems (cv_gt m thr) ! k \<noteq> 0) = (elems m ! k > thr)
         \<and> (elems m ! k = thr \<longrightarrow> elems (cv_gt m thr) ! k = 0)
         \<and> (elems (cv_gt m thr) ! k = (if elems m ! k > thr then 255 else 0)))"
    for m thr
    by (simp add: cv_gt_def)
  have emitted: "\<exists>t t' warped_mat mat.
            MakeAvailableOnDevice E t = Inr t' \<and> Tensor2CVMat E t' = Inr warped_mat
          \<and> mask det' = Some mat
          \<and> length (mat_data mat) = length (elems warped_mat)
          \<and> (\<forall>k < length (elems warped_mat).
                (mat_data mat ! k \<noteq> 0) = (elems warped_mat ! k > mask_thr_binary self))"
    if "process_det E self masks cpu_dets img_w img_h det = Inr det'"
  proof -
    from process_det_Inr_data [OF that] obtain t t' warped_mat where
      d: "MakeAvailableOnDevice E t = Inr t'" "Tensor2CVMat E t' = Inr warped_mat"
         "det' = det\<lparr>mask := Some \<lparr>mat_height = rect_height (target_rect (bbox det) img_w img_h),
                                   mat_width = rect_width (target_rect (bbox det) img_w img_h),
                                   mat_format = kGRAYSCALE, mat_type = kINT8,
                                   mat_data = elems (cv_gt warped_mat (mask_thr_binary self))\<rparr>\<rparr>"
      by blast
    from d(3) obtain mat where
      "mask det' = Some mat" "mat_data mat = elems (cv_gt warped_mat (mask_thr_binary self))"
      by simp
    with d(1,2) have
      *: "MakeAvailableOnDevice E t = Inr t'" "Tensor2CVMat E t' = Inr warped_mat"
         "mask det' = Some mat"
         "mat_data mat = elems (cv_gt warped_mat (mask_thr_binary self))"
      by simp_all
    from cmp [of warped_mat "mask_thr_binary self"] *(4)
    have "length (mat_data mat) = length (elems warped_mat)"
      and "\<forall>k < length (elems warped_mat).
                (mat_data mat ! k \<noteq> 0) = (elems warped_mat ! k > mask_thr_binary self)"
      by simp_all
    with *(1-3) show ?thesis by blast
  qed
  from cmp [of m thr] emitted show ?thesis by blast
qed

theorem binarizer_is_strict_threshold_witness:
  "(1::nat) < length (elems ex_raster) \<and> (2::nat) < length (elems ex_raster)
   \<and> elems ex_raster ! 1 = 1 / 2 \<and> elems (cv_gt ex_raster (1 / 2)) ! 1 = 0
   \<and> elems ex_raster ! 2 > 1 / 2 \<and> elems (cv_gt ex_raster (1 / 2)) ! 2 \<noteq> 0
   \<and> process_det host_ops ex_self (host_Squeeze ex_masks 0) (host_Squeeze ex_dets 0) 4 4
         (ex_det 0 (9 / 10) (1, 1, 2, 2))
       = Inr ((ex_det 0 (9 / 10) (1, 1, 2, 2))
                \<lparr>mask := Some (ex_mat 3 3 [255, 255, 255, 255, 255, 255, 255, 255, 255])\<rparr>)
   \<and> (\<exists>warped_mat :: real cvMat. length (elems warped_mat) = 9
         \<and> elems warped_mat ! 0 > mask_thr_binary ex_self)"
proof -
  have l: "(1::nat) < length (elems ex_raster)" "(2::nat) < length (elems ex_raster)"
    by (simp_all add: ex_raster_def)
  have v: "elems ex_raster ! 1 = 1 / 2" "elems ex_raster ! 2 > 1 / 2"
    by (simp_all add: ex_raster_def)
  note inst = binarizer_is_strict_threshold
    [of ex_raster "1 / 2" host_ops ex_self "host_Squeeze ex_masks 0" "host_Squeeze ex_dets 0" 4 4
       "ex_det 0 (9 / 10) (1, 1, 2, 2)"
       "(ex_det 0 (9 / 10) (1, 1, 2, 2))
          \<lparr>mask := Some (ex_mat 3 3 [255, 255, 255, 255, 255, 255, 255, 255, 255])\<rparr>"]
  from inst l v
  have c: "elems (cv_gt ex_raster (1 / 2)) ! 1 = 0" "elems (cv_gt ex_raster (1 / 2)) ! 2 \<noteq> 0"
    by blast+
  from inst [THEN conjunct2, THEN conjunct2, THEN conjunct2, THEN conjunct2, THEN mp,
      OF ex_process_det_inside]
  obtain t t' warped_mat mat where
    "MakeAvailableOnDevice host_ops t = Inr t'" "Tensor2CVMat host_ops t' = Inr warped_mat" and
    m: "mask ((ex_det 0 (9 / 10) (1, 1, 2, 2))
          \<lparr>mask := Some (ex_mat 3 3 [255, 255, 255, 255, 255, 255, 255, 255, 255])\<rparr>) = Some mat"
       "length (mat_data mat) = length (elems warped_mat)"
       "\<forall>k < length (elems warped_mat).
           (mat_data mat ! k \<noteq> 0) = (elems warped_mat ! k > mask_thr_binary ex_self)"
    by blast
  from m(1) have mat: "mat = ex_mat 3 3 [255, 255, 255, 255, 255, 255, 255, 255, 255]"
    by simp
  from m(2) have len: "length (elems warped_mat) = 9"
    by (simp add: mat ex_mat_def)
  have "mat_data mat ! 0 \<noteq> 0"
    by (simp add: mat ex_mat_def)
  with m(3) len have "elems warped_mat ! 0 > mask_thr_binary ex_self"
    by simp
  with len have "\<exists>warped_mat :: real cvMat. length (elems warped_mat) = 9
         \<and> elems warped_mat ! 0 > mask_thr_binary ex_self"
    by blast
  with l v c ex_process_det_inside show ?thesis by blast
qed

subsection \<open>The two conventions on equal boxes\<close>

text \<open>
  Claim C7, as stated, fails. For the box \<open>[10, 10, 38, 38]\<close> in a \<open>100 \<times> 100\<close> image,
  equal to its raw box, and a \<open>28 \<times> 28\<close> mask, \<open>mask_h = x1 - x0\<close> and
  \<open>mask_w = y1 - y0\<close> hold, yet the conventions give different offsets:
  \<open>tx = ty = 9\<close> under Convention B and \<open>tx = ty = -1\<close> under Convention A.
\<close>

theorem conventions_agree_counterexample:
  "affine_coeffs False 28 28 (10, 10, 38, 38) (fst (target_rect (10, 10, 38, 38) 100 100))
      (fst (snd (target_rect (10, 10, 38, 38) 100 100))) (10, 10, 38, 38)
     = (Some 1, Some 1, Some 9, Some 9)
   \<and> affine_coeffs True 28 28 (10, 10, 38, 38) (fst (target_rect (10, 10, 38, 38) 100 100))
      (fst (snd (target_rect (10, 10, 38, 38) 100 100))) (10, 10, 38, 38)
     = (Some 1, Some 1, Some (- 1), Some (- 1))
   \<and> real_of_int 28 = 38 - 10
   \<and> affine_coeffs True 28 28 (10, 10, 38, 38) (fst (target_rect (10, 10, 38, 38) 100 100))
      (fst (snd (target_rect (10, 10, 38, 38) 100 100))) (10, 10, 38, 38)
     \<noteq> affine_coeffs False 28 28 (10, 10, 38, 38) (fst (target_rect (10, 10, 38, 38) 100 100))
      (fst (snd (target_rect (10, 10, 38, 38) 100 100))) (10, 10, 38, 38)"
  by (simp add: affine_coeffs_def target_rect_def fdiv_def Let_def)

text \<open>
  Claim C7, amended. For a detection whose raw box equals its rescaled box and whose
  rescaled box has nonzero extents (\<open>x1 \<noteq> x0\<close>, \<open>y1 \<noteq> y0\<close>), Convention B gives
  \<open>fx = fy = 1\<close>; the scale factors of Convention A are 1 as well exactly when
  \<open>mask_h = x1 - x0\<close> and \<open>mask_w = y1 - y0\<close>; and Convention A gives the same four
  coefficients as Convention B exactly when, in addition, \<open>x0 = 0\<close> and \<open>y0 = 0\<close>.
\<close>

theorem conventions_agree_amended:
  assumes "b2 \<noteq> b0" and "b3 \<noteq> b1"
  shows "fst (affine_coeffs False mask_h mask_w (b0, b1, b2, b3) x0' y0' (b0, b1, b2, b3)) = Some 1
       \<and> fst (snd (affine_coeffs False mask_h mask_w (b0, b1, b2, b3) x0' y0' (b0, b1, b2, b3)))
           = Some 1
       \<and> ((fst (affine_coeffs True mask_h mask_w (b0, b1, b2, b3) x0' y0' raw) = Some 1
            \<and> fst (snd (affine_coeffs True mask_h mask_w (b0, b1, b2, b3) x0' y0' raw)) = Some 1)
           = (real_of_int mask_h = b2 - b0 \<and> real_of_int mask_w = b3 - b1))
       \<and> ((affine_coeffs True mask_h mask_w (b0, b1, b2, b3) x0' y0' (b0, b1, b2, b3)
            = affine_coeffs False mask_h mask_w (b0, b1, b2, b3) x0' y0' (b0, b1, b2, b3))
           = (real_of_int mask_h = b2 - b0 \<and> real_of_int mask_w = b3 - b1 \<and> b0 = 0 \<and> b1 = 0))"
  using assms by (auto simp add: affine_coeffs_def fdiv_def Let_def)

theorem conventions_agree_amended_witness:
  "(28::real) \<noteq> 0 \<and> (28::real) \<noteq> 0
   \<and> fst (affine_coeffs False 28 28 (0, 0, 28, 28) 0 0 (0, 0, 28, 28)) = Some 1
   \<and> fst (snd (affine_coeffs False 28 28 (0, 0, 28, 28) 0 0 (0, 0, 28, 28))) = Some 1
   \<and> affine_coeffs True 28 28 (0, 0, 28, 28) 0 0 (0, 0, 28, 28)
       = affine_coeffs False 28 28 (0, 0, 28, 28) 0 0 (0, 0, 28, 28)"
  using conventions_agree_amended
          [where ?b2.0 = 28 and ?b0.0 = 0 and ?b3.0 = 28 and ?b1.0 = 0 and mask_h = 28
             and mask_w = 28 and x0' = 0 and y0' = 0]
  by simp

subsection \<open>Sign of the mask size\<close>

text \<open>
  Claim C5, as stated, fails. A box to the right of the image, \<open>[200, 10, 250, 50]\<close> in
  a \<open>100 \<times> 100\<close> image, gets the width \<open>-99\<close>; and the zero-width box
  \<open>[10, 10, 10, 50]\<close> gets a \<open>2 \<times> 42\<close> raster, which is not of zero area.
\<close>

theorem mask_size_nonnegative_counterexample:
  "rect_width (target_rect (200, 10, 250, 50) 100 100) = - 99
   \<and> \<not> 0 \<le> rect_width (target_rect (200, 10, 250, 50) 100 100)
   \<and> rect_width (target_rect (10, 10, 10, 50) 100 100) = 2
   \<and> rect_height (target_rect (10, 10, 10, 50) 100 100) = 42
   \<and> rect_width (target_rect (10, 10, 10, 50) 100 100)
       * rect_height (target_rect (10, 10, 10, 50) 100 100) \<noteq> 0"
  by (simp add: rect_width_int rect_height_int)

text \<open>
  Claim C5, amended. For every detection whose box is not inverted (\<open>x0 \<le> x1\<close>,
  \<open>y0 \<le> y1\<close>) and meets the image (\<open>0 \<le> x1\<close>, \<open>0 \<le> y1\<close>, \<open>x0 \<le> img_w\<close>,
  \<open>y0 \<le> img_h\<close>, with \<open>img_w, img_h \<ge> 0\<close>), zero-width and zero-height boxes included,
  the width and the height computed for the mask are non-negative; they are at least 1
  when the image has at least one column, respectively one row.
\<close>

theorem mask_size_nonnegative_amended:
  assumes "b0 \<le> b2" and "b1 \<le> b3" and "0 \<le> b2" and "0 \<le> b3"
      and "b0 \<le> real_of_int img_w" and "b1 \<le> real_of_int img_h"
      and "0 \<le> img_w" and "0 \<le> img_h"
  shows "0 \<le> rect_width (target_rect (b0, b1, b2, b3) img_w img_h)
       \<and> 0 \<le> rect_height (target_rect (b0, b1, b2, b3) img_w img_h)
       \<and> (1 \<le> img_w \<longrightarrow> 1 \<le> rect_width (target_rect (b0, b1, b2, b3) img_w img_h))
       \<and> (1 \<le> img_h \<longrightarrow> 1 \<le> rect_height (target_rect (b0, b1, b2, b3) img_w img_h))"
proof -
  define f0 f1 c2 c3
    where "f0 = \<lfloor>b0\<rfloor>" and "f1 = \<lfloor>b1\<rfloor>" and "c2 = \<lceil>b2\<rceil>" and "c3 = \<lceil>b3\<rceil>"
  have fx: "f0 \<le> c2" unfolding f0_def c2_def using assms(1) by linarith
  have fy: "f1 \<le> c3" unfolding f1_def c3_def using assms(2) by linarith
  have cx: "0 \<le> c2" unfolding c2_def using assms(3) by linarith
  have cy: "0 \<le> c3" unfolding c3_def using assms(4) by linarith
  have wx: "f0 \<le> img_w" unfolding f0_def using assms(5) by linarith
  have wy: "f1 \<le> img_h" unfolding f1_def using assms(6) by linarith
  have w: "rect_width (target_rect (b0, b1, b2, b3) img_w img_h)
             = min (c2 + 1) img_w - max (f0 - 1) 0"
    by (simp only: rect_width_int f0_def c2_def)
  have h: "rect_height (target_rect (b0, b1, b2, b3) img_w img_h)
             = min (c3 + 1) img_h - max (f1 - 1) 0"
    by (simp only: rect_height_int f1_def c3_def)
  have 1: "0 \<le> min (c2 + 1) img_w - max (f0 - 1) 0"
    using fx cx wx assms(7) by arith
  have 2: "0 \<le> min (c3 + 1) img_h - max (f1 - 1) 0"
    using fy cy wy assms(8) by arith
  have 3: "1 \<le> img_w \<Longrightarrow> 1 \<le> min (c2 + 1) img_w - max (f0 - 1) 0"
    using fx cx wx by arith
  have 4: "1 \<le> img_h \<Longrightarrow> 1 \<le> min (c3 + 1) img_h - max (f1 - 1) 0"
    using fy cy wy by arith
  from 1 2 3 4 show ?thesis unfolding w h by blast
qed

theorem mask_size_nonnegative_amended_witness:
  "(10::real) \<le> 10 \<and> (10::real) \<le> 50 \<and> (0::real) \<le> 10 \<and> (0::real) \<le> 50
   \<and> (10::real) \<le> real_of_int 100 \<and> (0::int) \<le> 100 \<and> (1::int) \<le> 100
   \<and> 1 \<le> rect_width (target_rect (10, 10, 10, 50) 100 100)
   \<and> 1 \<le> rect_height (target_rect (10, 10, 10, 50) 100 100)"
  using mask_size_nonnegative_amended
          [where ?b0.0 = 10 and ?b1.0 = 10 and ?b2.0 = 10 and ?b3.0 = 50
             and img_w = 100 and img_h = 100]
  by simp

subsection \<open>Configuration\<close>

text \<open>
  Claim C8, as stated, fails. A configuration whose \<^verbatim>\<open>params\<close> entry sets only the
  threshold, and so does not specify the convention, selects Convention B
  (\<open>is_rcnn = False\<close>), not the default; and a \<^verbatim>\<open>params\<close> entry that holds the key
  \<^verbatim>\<open>rcnn\<close> with the value \<^verbatim>\<open>false\<close> selects Convention A.
\<close>

theorem config_defaults_counterexample:
  "ResizeInstanceMask host_ops
       (JObject [(''params'', JObject [(''mask_thr_binary'', JReal (3 / 10))])])
     = Inr \<lparr>mask_thr_binary = 3 / 10, is_rcnn = False\<rparr>
   \<and> ResizeInstanceMask host_ops (JObject [(''params'', JObject [(''rcnn'', JBool False)])])
     = Inr \<lparr>mask_thr_binary = 1 / 2, is_rcnn = True\<rparr>"
  by (simp add: ResizeInstanceMask_def bind_def host_defs)

text \<open>
  Claim C8, amended. Without a \<^verbatim>\<open>params\<close> entry the threshold is 0.5 and \<open>is_rcnn\<close> is
  true. With a \<^verbatim>\<open>params\<close> entry the threshold is the value of its key
  \<^verbatim>\<open>mask_thr_binary\<close>, read with the default 0.5, and \<open>is_rcnn\<close> is true exactly when
  \<^verbatim>\<open>params\<close> contains the key \<^verbatim>\<open>rcnn\<close>. For every configuration Convention A is used
  when \<open>is_rcnn\<close> is true and Convention B when it is false.
\<close>

theorem config_defaults_amended:
  fixes E :: "('v, 'd) ops"
  shows "(\<not> contains E cfg ''params''
            \<longrightarrow> ResizeInstanceMask E cfg = Inr \<lparr>mask_thr_binary = 1 / 2, is_rcnn = True\<rparr>)
       \<and> (contains E cfg ''params'' \<and> at_key E cfg ''params'' = Inr p
            \<and> value_float E p ''mask_thr_binary'' (1 / 2) = Inr thr
            \<longrightarrow> ResizeInstanceMask E cfg
                = Inr \<lparr>mask_thr_binary = thr, is_rcnn = contains E p ''rcnn''\<rparr>)
       \<and> affine_coeffs (is_rcnn self) mask_h mask_w b x0' y0' raw
           = (if is_rcnn self then spec_convention_A mask_h mask_w b x0' y0'
              else spec_convention_B raw b x0' y0')"
  by (simp add: ResizeInstanceMask_def bind_def affine_coeffs_A affine_coeffs_B)

theorem config_defaults_amended_witness:
  "\<not> contains host_ops (JObject []) ''params''
   \<and> ResizeInstanceMask host_ops (JObject []) = Inr \<lparr>mask_thr_binary = 1 / 2, is_rcnn = True\<rparr>
   \<and> contains host_ops (JObject [(''params'', JObject [(''rcnn'', JObject [])])]) ''params''
   \<and> at_key host_ops (JObject [(''params'', JObject [(''rcnn'', JObject [])])]) ''params''
       = Inr (JObject [(''rcnn'', JObject [])])
   \<and> value_float host_ops (JObject [(''rcnn'', JObject [])]) ''mask_thr_binary'' (1 / 2)
       = Inr (1 / 2)
   \<and> ResizeInstanceMask host_ops (JObject [(''params'', JObject [(''rcnn'', JObject [])])])
       = Inr \<lparr>mask_thr_binary = 1 / 2, is_rcnn = True\<rparr>"
proof -
  have a: "\<not> contains host_ops (JObject []) ''params''"
    by (simp add: host_defs)
  have b: "contains host_ops (JObject [(''params'', JObject [(''rcnn'', JObject [])])]) ''params''"
    "at_key host_ops (JObject [(''params'', JObject [(''rcnn'', JObject [])])]) ''params''
       = Inr (JObject [(''rcnn'', JObject [])])"
    "value_float host_ops (JObject [(''rcnn'', JObject [])]) ''mask_thr_binary'' (1 / 2)
       = Inr (1 / 2)"
    "contains host_ops (JObject [(''rcnn'', JObject [])]) ''rcnn''"
    by (simp_all add: host_defs)
  from config_defaults_amended [of host_ops "JObject []", THEN conjunct1] a
  have 1: "ResizeInstanceMask host_ops (JObject [])
             = Inr \<lparr>mask_thr_binary = 1 / 2, is_rcnn = True\<rparr>"
    by blast
  from config_defaults_amended
         [of host_ops "JObject [(''params'', JObject [(''rcnn'', JObject [])])]"
            "JObject [(''rcnn'', JObject [])]" "1 / 2", THEN conjunct2, THEN conjunct1] b
  have 2: "ResizeInstanceMask host_ops (JObject [(''params'', JObject [(''rcnn'', JObject [])])])
             = Inr \<lparr>mask_thr_binary = 1 / 2, is_rcnn = True\<rparr>"
    by simp
  from a b(1-3) 1 2 show ?thesis by blast
qed

subsection \<open>A failure of the warp operator\<close>

text \<open>
  After a successful validation, an error status with which \<^verbatim>\<open>ProcessMasks\<close> leaves its
  loop does not reach the caller of the operator: the call succeeds with the list as the
  loop left it. This holds for every choice of the collaborators.
\<close>

lemma operator_call_drops_status:
  assumes "bind (at_key E infer_res ''dets'') (get_Tensor E) = Inr dets"
      and "bind (at_key E infer_res ''labels'') (get_Tensor E) = Inr labels"
      and "bind (at_key E infer_res ''masks'') (get_Tensor E) = Inr masks"
      and "validate dets labels masks = None"
      and "MakeAvailableOnDevice E dets = Inr host_dets"
      and "MakeAvailableOnDevice E labels = Inr host_labels"
      and "at_key E prep_res ''img_metas'' = Inr metas"
      and "DispatchGetBBoxes E metas host_dets host_labels = Inr result"
      and "ori_shape E prep_res 2 = Inr ori_w"
      and "ori_shape E prep_res 1 = Inr ori_h"
      and "ProcessMasks E self result masks host_dets ori_w ori_h = (Inl (Status e), result')"
  shows "operator_call E self prep_res infer_res = Some (Inr result')"
  using assms by (simp add: operator_call_def operator_body_def bind_def)

text \<open>An exception in the loop, in contrast, ends the call with \<^verbatim>\<open>eFail\<close>.\<close>

lemma operator_call_exception:
  assumes "bind (at_key E infer_res ''dets'') (get_Tensor E) = Inr dets"
      and "bind (at_key E infer_res ''labels'') (get_Tensor E) = Inr labels"
      and "bind (at_key E infer_res ''masks'') (get_Tensor E) = Inr masks"
      and "validate dets labels masks = None"
      and "MakeAvailableOnDevice E dets = Inr host_dets"
      and "MakeAvailableOnDevice E labels = Inr host_labels"
      and "at_key E prep_res ''img_metas'' = Inr metas"
      and "DispatchGetBBoxes E metas host_dets host_labels = Inr result"
      and "ori_shape E prep_res 2 = Inr ori_w"
      and "ori_shape E prep_res 1 = Inr ori_h"
      and "ProcessMasks E self result masks host_dets ori_w ori_h = (Inl Exception, result')"
  shows "operator_call E self prep_res infer_res = Some (Inl eFail)"
  using assms by (simp add: operator_call_def operator_body_def bind_def)

text \<open>
  A run of the loop that does not leave it through a failure ends in the undefined
  behaviour of the missing \<^verbatim>\<open>return\<close>, and so does the call.
\<close>

lemma operator_call_undefined:
  assumes "bind (at_key E infer_res ''dets'') (get_Tensor E) = Inr dets"
      and "bind (at_key E infer_res ''labels'') (get_Tensor E) = Inr labels"
      and "bind (at_key E infer_res ''masks'') (get_Tensor E) = Inr masks"
      and "validate dets labels masks = None"
      and "MakeAvailableOnDevice E dets = Inr host_dets"
      and "MakeAvailableOnDevice E labels = Inr host_labels"
      and "at_key E prep_res ''img_metas'' = Inr metas"
      and "DispatchGetBBoxes E metas host_dets host_labels = Inr result"
      and "ori_shape E prep_res 2 = Inr ori_w"
      and "ori_shape E prep_res 1 = Inr ori_h"
      and "ProcessMasks E self result masks host_dets ori_w ori_h = (Inl Undefined, result')"
  shows "operator_call E self prep_res infer_res = None"
  using assms by (simp add: operator_call_def operator_body_def bind_def)

lemma loop_never_returns_a_value:
  "fst (ProcessMasks_loop E self masks cpu_dets img_w img_h ds) \<noteq> Inr u"
  by (induction ds) (auto split: sum.splits prod.splits)

lemma loop_completed:
  "list_all (\<lambda>d. \<not> isl (process_det E self masks cpu_dets img_w img_h d)) ds \<Longrightarrow>
   fst (ProcessMasks_loop E self masks cpu_dets img_w img_h ds) = Inl Undefined"
  by (induction ds) (auto split: sum.splits prod.splits)

lemma loop_Cons_Inr:
  "process_det E self masks cpu_dets img_w img_h d = Inr d' \<Longrightarrow>
   snd (ProcessMasks_loop E self masks cpu_dets img_w img_h (d # ds))
     = d' # snd (ProcessMasks_loop E self masks cpu_dets img_w img_h ds)"
  by (simp split: prod.splits)

lemma loop_Cons_Inl:
  "process_det E self masks cpu_dets img_w img_h d = Inl e \<Longrightarrow>
   ProcessMasks_loop E self masks cpu_dets img_w img_h (d # ds) = (Inl e, d # ds)"
  by simp

lemma ex_dispatch:
  "host_DispatchGetBBoxes m ex_dets ex_labels
     = Inr [ex_det 0 (9 / 10) (1, 1, 2, 2), ex_det 1 (4 / 5) (7, 1, 8, 2)]"
  by (simp add: host_defs ex_defs numeral_eq_Suc Let_def)

lemma ex_ori_shape:
  "ori_shape host_ops ex_prep_res 2 = Inr 4" "ori_shape host_ops ex_prep_res 1 = Inr 4"
  by (simp_all add: ori_shape_def bind_def host_defs ex_defs)

lemma ex_ProcessMasks:
  "ProcessMasks host_ops ex_self [ex_det 0 (9 / 10) (1, 1, 2, 2), ex_det 1 (4 / 5) (7, 1, 8, 2)]
     ex_masks ex_dets 4 4
   = (Inl (Status (eOtherError 1)),
      [(ex_det 0 (9 / 10) (1, 1, 2, 2))
         \<lparr>mask := Some (ex_mat 3 3 [255, 255, 255, 255, 255, 255, 255, 255, 255])\<rparr>,
       ex_det 1 (4 / 5) (7, 1, 8, 2)])"
  by (simp add: ProcessMasks_def host_ops_sel ex_process_det_inside ex_process_det_outside)

text \<open>
  Claim C4 does not hold of the code. In the example environment, with a \<open>4 \<times> 4\<close>
  image and the rows \<open>[1, 1, 2, 2, 0.9]\<close> and \<open>[7, 1, 8, 2, 0.8]\<close> of \<^verbatim>\<open>dets\<close>, the warp
  of the second detection fails with an error status; the call nevertheless succeeds and
  returns a list in which the first detection has a mask and the second has none.
\<close>

theorem warp_failure_returns_partial_result:
  "process_det host_ops ex_self (host_Squeeze ex_masks 0) (host_Squeeze ex_dets 0) 4 4
     (ex_det 1 (4 / 5) (7, 1, 8, 2)) = Inl (Status (eOtherError 1))
   \<and> operator_call host_ops ex_self ex_prep_res ex_infer_res
     = Some (Inr [(ex_det 0 (9 / 10) (1, 1, 2, 2))
                    \<lparr>mask := Some (ex_mat 3 3 [255, 255, 255, 255, 255, 255, 255, 255, 255])\<rparr>,
                  ex_det 1 (4 / 5) (7, 1, 8, 2)])"
proof -
  have v: "validate ex_dets ex_labels ex_masks = None"
    by (simp add: validate_def ex_defs)
  have m: "at_key host_ops ex_prep_res ''img_metas''
             = Inr (JObject [(''ori_shape'', JArray [JInt 1, JInt 4, JInt 4, JInt 3])])"
    by (simp add: host_ops_sel json_at_key_def ex_prep_res_def)
  have a: "MakeAvailableOnDevice host_ops ex_dets = Inr ex_dets"
    "MakeAvailableOnDevice host_ops ex_labels = Inr ex_labels"
    by (simp_all add: host_ops_sel)
  have d: "DispatchGetBBoxes host_ops
             (JObject [(''ori_shape'', JArray [JInt 1, JInt 4, JInt 4, JInt 3])]) ex_dets ex_labels
           = Inr [ex_det 0 (9 / 10) (1, 1, 2, 2), ex_det 1 (4 / 5) (7, 1, 8, 2)]"
    by (simp add: host_ops_sel ex_dispatch)
  have "operator_call host_ops ex_self ex_prep_res ex_infer_res
     = Some (Inr [(ex_det 0 (9 / 10) (1, 1, 2, 2))
                    \<lparr>mask := Some (ex_mat 3 3 [255, 255, 255, 255, 255, 255, 255, 255, 255])\<rparr>,
                  ex_det 1 (4 / 5) (7, 1, 8, 2)])"
    by (rule operator_call_drops_status
          [OF ex_get_tensors(1-3) v a m d ex_ori_shape ex_ProcessMasks])
  with ex_process_det_outside show ?thesis by blast
qed

subsection \<open>Independence of the detections\<close>

text \<open>
  The list as the loop leaves it: at a position that the loop reaches, it holds what the
  body made of the detection there.
\<close>

lemma loop_nth:
  assumes "i < length ds" and "processed_before E self masks cpu_dets img_w img_h ds i"
  shows "snd (ProcessMasks_loop E self masks cpu_dets img_w img_h ds) ! i =
           (case process_det E self masks cpu_dets img_w img_h (ds ! i) of
              Inl e \<Rightarrow> ds ! i | Inr d \<Rightarrow> d)"
  using assms
proof (induction ds arbitrary: i)
  case Nil
  then show ?case by simp
next
  case (Cons d ds)
  show ?case
  proof (cases i)
    case 0
    show ?thesis
    proof (cases "process_det E self masks cpu_dets img_w img_h d")
      case (Inl e)
      then show ?thesis unfolding 0 by (simp only: loop_Cons_Inl [OF Inl]) simp
    next
      case (Inr d')
      then show ?thesis unfolding 0 by (simp only: loop_Cons_Inr [OF Inr]) simp
    qed
  next
    case (Suc j)
    with Cons.prems have ok: "\<not> isl (process_det E self masks cpu_dets img_w img_h d)"
      and rest: "processed_before E self masks cpu_dets img_w img_h ds j" and j: "j < length ds"
      by (simp_all add: processed_before_def)
    from ok obtain d' where d': "process_det E self masks cpu_dets img_w img_h d = Inr d'"
      by (cases "process_det E self masks cpu_dets img_w img_h d") simp_all
    from Cons.IH [OF j rest] show ?thesis
      unfolding Suc by (simp only: loop_Cons_Inr [OF d'] nth_Cons_Suc)
  qed
qed

text \<open>
  The loop body reads of the two tensors only the detection's own slice of the masks
  and, under Convention B, the detection's own row of the detection tensor.
\<close>

lemma process_det_own_data:
  assumes "Slice E masks1 (index det) = Slice E masks2 (index det)"
      and "is_rcnn self \<or> raw_bbox_data E dets1 det = raw_bbox_data E dets2 det"
  shows "process_det E self masks1 dets1 img_w img_h det
       = process_det E self masks2 dets2 img_w img_h det"
proof (cases "is_rcnn self")
  case True
  then show ?thesis
    by (simp add: process_det_def assms(1) affine_coeffs_A Let_def)
next
  case False
  with assms(2) have "raw_bbox_data E dets1 det = raw_bbox_data E dets2 det" by simp
  then show ?thesis
    by (simp add: process_det_def assms(1) Let_def)
qed

lemma ex3_get_tensors:
  "bind (at_key host_ops (ex_infer_res3 b) ''dets'') (get_Tensor host_ops) = Inr (ex_dets3 b)"
  "bind (at_key host_ops (ex_infer_res3 b) ''labels'') (get_Tensor host_ops) = Inr ex_labels3"
  "bind (at_key host_ops (ex_infer_res3 b) ''masks'') (get_Tensor host_ops) = Inr ex_masks3"
  by (simp_all add: bind_def host_ops_sel json_at_key_def json_get_Tensor_def ex_infer_res3_def)

lemma ex3_validate: "validate (ex_dets3 b) ex_labels3 ex_masks3 = None"
  by (cases b) (simp add: validate_def ex_defs)

lemma ex3_dispatch:
  "host_DispatchGetBBoxes m (ex_dets3 b) ex_labels3
     = Inr [ex_det 0 (9 / 10) b, ex_det 1 (4 / 5) (1, 1, 2, 2), ex_det 2 (7 / 10) (7, 1, 8, 2)]"
  by (cases b) (simp add: host_defs ex_defs numeral_eq_Suc Let_def)

lemma ex3_process_det_first:
  "process_det host_ops ex_self (host_Squeeze ex_masks3 0) (host_Squeeze (ex_dets3 b) 0) 4 4
     (ex_det 0 (9 / 10) (1, 1, 2, 2))
   = Inr ((ex_det 0 (9 / 10) (1, 1, 2, 2))
            \<lparr>mask := Some (ex_mat 3 3 [255, 255, 255, 255, 255, 255, 255, 255, 255])\<rparr>)"
  by (cases b) (simp add: model_defs host_defs ex_defs Let_def numeral_eq_Suc)

lemma ex3_process_det_second:
  "process_det host_ops ex_self (host_Squeeze ex_masks3 0) (host_Squeeze (ex_dets3 b) 0) 4 4
     (ex_det 1 (4 / 5) (1, 1, 2, 2))
   = Inr ((ex_det 1 (4 / 5) (1, 1, 2, 2))\<lparr>mask := Some (ex_mat 3 3 [0, 0, 0, 0, 0, 0, 0, 0, 0])\<rparr>)"
  by (cases b) (simp add: model_defs host_defs ex_defs Let_def numeral_eq_Suc)

lemma ex3_process_det_outside:
  "process_det host_ops ex_self (host_Squeeze ex_masks3 0) (host_Squeeze (ex_dets3 b) 0) 4 4
     (ex_det i s (7, 1, 8, 2))
   = Inl (Status (eOtherError 1))"
  by (cases b) (simp add: model_defs host_defs ex_defs Let_def)

lemma ex3_ProcessMasks_inside:
  "ProcessMasks host_ops ex_self
     [ex_det 0 (9 / 10) (1, 1, 2, 2), ex_det 1 (4 / 5) (1, 1, 2, 2), ex_det 2 (7 / 10) (7, 1, 8, 2)]
     ex_masks3 (ex_dets3 (1, 1, 2, 2)) 4 4
   = (Inl (Status (eOtherError 1)),
      [(ex_det 0 (9 / 10) (1, 1, 2, 2))
         \<lparr>mask := Some (ex_mat 3 3 [255, 255, 255, 255, 255, 255, 255, 255, 255])\<rparr>,
       (ex_det 1 (4 / 5) (1, 1, 2, 2))
         \<lparr>mask := Some (ex_mat 3 3 [0, 0, 0, 0, 0, 0, 0, 0, 0])\<rparr>,
       ex_det 2 (7 / 10) (7, 1, 8, 2)])"
  by (simp add: ProcessMasks_def host_ops_sel ex3_process_det_first ex3_process_det_second
        ex3_process_det_outside)

lemma ex3_ProcessMasks_outside:
  "ProcessMasks host_ops ex_self
     [ex_det 0 (9 / 10) (7, 1, 8, 2), ex_det 1 (4 / 5) (1, 1, 2, 2), ex_det 2 (7 / 10) (7, 1, 8, 2)]
     ex_masks3 (ex_dets3 (7, 1, 8, 2)) 4 4
   = (Inl (Status (eOtherError 1)),
      [ex_det 0 (9 / 10) (7, 1, 8, 2), ex_det 1 (4 / 5) (1, 1, 2, 2),
       ex_det 2 (7 / 10) (7, 1, 8, 2)])"
  by (simp add: ProcessMasks_def host_ops_sel ex3_process_det_outside)

lemma ex3_operator_call:
  assumes "ProcessMasks host_ops ex_self
             [ex_det 0 (9 / 10) b, ex_det 1 (4 / 5) (1, 1, 2, 2), ex_det 2 (7 / 10) (7, 1, 8, 2)]
             ex_masks3 (ex_dets3 b) 4 4 = (Inl (Status e), result')"
  shows "operator_call host_ops ex_self ex_prep_res (ex_infer_res3 b) = Some (Inr result')"
proof -
  have m: "at_key host_ops ex_prep_res ''img_metas''
             = Inr (JObject [(''ori_shape'', JArray [JInt 1, JInt 4, JInt 4, JInt 3])])"
    by (simp add: host_ops_sel json_at_key_def ex_prep_res_def)
  have a: "MakeAvailableOnDevice host_ops (ex_dets3 b) = Inr (ex_dets3 b)"
    "MakeAvailableOnDevice host_ops ex_labels3 = Inr ex_labels3"
    by (simp_all add: host_ops_sel)
  have d: "DispatchGetBBoxes host_ops
             (JObject [(''ori_shape'', JArray [JInt 1, JInt 4, JInt 4, JInt 3])])
             (ex_dets3 b) ex_labels3
           = Inr [ex_det 0 (9 / 10) b, ex_det 1 (4 / 5) (1, 1, 2, 2),
                  ex_det 2 (7 / 10) (7, 1, 8, 2)]"
    by (simp add: host_ops_sel ex3_dispatch)
  show ?thesis
    by (rule operator_call_drops_status
          [OF ex3_get_tensors ex3_validate a m d ex_ori_shape assms])
qed

text \<open>
  Claim C9 does not hold of the code. Two calls in the example environment get inputs
  that differ only in the box of the first detection (the first row of \<^verbatim>\<open>dets\<close>):
  \<open>[1, 1, 2, 2]\<close> in the one, \<open>[7, 1, 8, 2]\<close>, to the right of the \<open>4 \<times> 4\<close> image, in
  the other; the warp of a box to the right of the image fails with an error status,
  as that of the third detection does in both calls. Both calls return a detection
  list. The second detection, whose box, mask slice and raw box are the same in both
  calls, has a \<open>3 \<times> 3\<close> mask in the list of the first call and no mask in the list of
  the second.
\<close>

theorem dropped_failure_makes_detections_interfere:
  "operator_call host_ops ex_self ex_prep_res (ex_infer_res3 (1, 1, 2, 2))
     = Some (Inr [(ex_det 0 (9 / 10) (1, 1, 2, 2))
                    \<lparr>mask := Some (ex_mat 3 3 [255, 255, 255, 255, 255, 255, 255, 255, 255])\<rparr>,
                  (ex_det 1 (4 / 5) (1, 1, 2, 2))
                    \<lparr>mask := Some (ex_mat 3 3 [0, 0, 0, 0, 0, 0, 0, 0, 0])\<rparr>,
                  ex_det 2 (7 / 10) (7, 1, 8, 2)])
   \<and> operator_call host_ops ex_self ex_prep_res (ex_infer_res3 (7, 1, 8, 2))
     = Some (Inr [ex_det 0 (9 / 10) (7, 1, 8, 2), ex_det 1 (4 / 5) (1, 1, 2, 2),
                  ex_det 2 (7 / 10) (7, 1, 8, 2)])
   \<and> mask ((ex_det 1 (4 / 5) (1, 1, 2, 2))
             \<lparr>mask := Some (ex_mat 3 3 [0, 0, 0, 0, 0, 0, 0, 0, 0])\<rparr>)
       \<noteq> mask (ex_det 1 (4 / 5) (1, 1, 2, 2))"
proof -
  have 1: "operator_call host_ops ex_self ex_prep_res (ex_infer_res3 (1, 1, 2, 2))
     = Some (Inr [(ex_det 0 (9 / 10) (1, 1, 2, 2))
                    \<lparr>mask := Some (ex_mat 3 3 [255, 255, 255, 255, 255, 255, 255, 255, 255])\<rparr>,
                  (ex_det 1 (4 / 5) (1, 1, 2, 2))
                    \<lparr>mask := Some (ex_mat 3 3 [0, 0, 0, 0, 0, 0, 0, 0, 0])\<rparr>,
                  ex_det 2 (7 / 10) (7, 1, 8, 2)])"
    by (rule ex3_operator_call [OF ex3_ProcessMasks_inside])
  have 2: "operator_call host_ops ex_self ex_prep_res (ex_infer_res3 (7, 1, 8, 2))
     = Some (Inr [ex_det 0 (9 / 10) (7, 1, 8, 2), ex_det 1 (4 / 5) (1, 1, 2, 2),
                  ex_det 2 (7 / 10) (7, 1, 8, 2)])"
    by (rule ex3_operator_call [OF ex3_ProcessMasks_outside])
  have 3: "mask ((ex_det 1 (4 / 5) (1, 1, 2, 2))
             \<lparr>mask := Some (ex_mat 3 3 [0, 0, 0, 0, 0, 0, 0, 0, 0])\<rparr>)
       \<noteq> mask (ex_det 1 (4 / 5) (1, 1, 2, 2))"
    by (simp add: ex_det_def)
  from 1 2 3 show ?thesis by blast
qed

end
